theory Spec2Isabelle
  imports Main
begin

section \<open>The parse tree of text/template/parse, as tree.go reads and writes it\<close>

text \<open>
  The arguments of a command. tree.go distinguishes identifiers, string literals and
  field accesses, and creates dot nodes; every other kind of argument (variable, number,
  boolean, chain, parenthesised pipeline, nil) is \<open>OtherArg\<close>.
\<close>

datatype arg =
    IdentifierNode string
  | StringNode string
  | FieldNode "string list"
  | DotNode
  | OtherArg string

record command =
  Args :: "arg list"

record pipe =
  IsAssign :: bool
  Decl :: "string list"
  Cmds :: "command list"

text \<open>
  The nodes of a template body. A field of Go type \<open>*parse.ListNode\<close> (the root, the
  two bodies of a conditional, iteration or scoped-context node) may be the nil pointer:
  it is a \<open>node list option\<close>, and \<open>ListNode None\<close> is that nil pointer seen through the
  \<open>parse.Node\<close> interface. All the other pointers of a tree (the nodes themselves, the
  pipeline of an action) are taken to be non-nil, as the parser builds them; the pipeline
  of a template node is optional, as in \<open>{{template "x"}}\<close>. The two integers of a node
  are its \<open>Pos\<close>, a byte offset into the source, and its \<open>Line\<close>. Text, comment, break
  and continue nodes are \<open>TextNode\<close>: leaves that tree.go never looks at.
\<close>

datatype node =
    ActionNode int int pipe
  | TemplateNode int int string "pipe option"
  | ListNode (Nodes: "node list option")
  | IfNode int int pipe "node list option" "node list option"
  | RangeNode int int pipe "node list option" "node list option"
  | WithNode int int pipe "node list option" "node list option"
  | TextNode string

record template =
  Name :: string
  Root :: "node list option"

section \<open>Errors\<close>

text \<open>
  \<open>posErr\<close> is the struct of tree.go, \<open>errorString\<close> the value of \<open>errors.New\<close>, and
  \<open>wrapError\<close> the value of \<open>fmt.Errorf\<close> with one \<open>%w\<close> verb: its message and the
  error it wraps.
\<close>

datatype error =
    posErr int string
  | errorString string
  | wrapError string error

fun Error :: "error \<Rightarrow> string" where
  "Error (posErr p message) = message"
| "Error (errorString s) = s"
| "Error (wrapError msg e) = msg"

section \<open>The names of the two directives\<close>

text \<open>
  Modelled from the spec: the constant \<open>renderFunc\<close> is declared outside tree.go; the spec
  gives the directive the name \<open>render\<close>.
\<close>

definition renderFunc :: string where
  "renderFunc = ''render''"

text \<open>
  Modelled from the spec: the constant \<open>partialFunc\<close> is declared outside tree.go; the spec
  gives the directive the name \<open>partial\<close>.
\<close>

definition partialFunc :: string where
  "partialFunc = ''partial''"

section \<open>getActionArgs\<close>

text \<open>
  The three results are the function name, the file name and the field; the field is a
  pointer to a field node in the source, nil when the third argument is missing or of
  another kind.
\<close>

definition getActionArgs :: "command \<Rightarrow> string \<times> string \<times> arg option" where
  "getActionArgs cmd =
     (let fn = (if length (Args cmd) > 0
                then (case Args cmd ! 0 of IdentifierNode i \<Rightarrow> i | _ \<Rightarrow> [])
                else []);
          file = (if length (Args cmd) > 1
                  then (case Args cmd ! 1 of StringNode s \<Rightarrow> s | _ \<Rightarrow> [])
                  else []);
          field = (if length (Args cmd) > 2
                   then (case Args cmd ! 2 of FieldNode f \<Rightarrow> Some (FieldNode f) | _ \<Rightarrow> None)
                   else None)
      in (fn, file, field))"

section \<open>processActionNode\<close>

text \<open>
  The statements after the switch. The command and the pipeline are shared between the
  action node and the new template node, so both see the new arguments and the truncated
  command list. The write to \<open>parent.Nodes[index]\<close> panics when the index is out of
  range: the result is \<open>None\<close>.
\<close>

definition replaceNode ::
  "node list \<Rightarrow> int \<Rightarrow> int \<Rightarrow> int \<Rightarrow> pipe \<Rightarrow> command \<Rightarrow> string \<Rightarrow> arg
     \<Rightarrow> (node list option \<times> node \<times> error option) option" where
  "replaceNode nodes index p line pp cmd name a =
     (let pp' = pp\<lparr>Cmds := [cmd\<lparr>Args := [a]\<rparr>]\<rparr>;
          tn = TemplateNode p line name (Some pp')
      in if 0 \<le> index \<and> index < int (length nodes)
         then Some (Some (nodes[nat index := tn]), ActionNode p line pp', None)
         else None)"

text \<open>
  The result is \<open>None\<close> when the source panics (a node that is not an action, an empty
  command list, an index out of range), and otherwise the parent's nodes and the action
  node as the call leaves them, with the error returned.
\<close>

definition processActionNode ::
  "node list option \<Rightarrow> int \<Rightarrow> node \<Rightarrow> bool \<Rightarrow> bool
     \<Rightarrow> (node list option \<times> node \<times> error option) option" where
  "processActionNode parent index n render partial =
     (case parent of
        None \<Rightarrow> Some (parent, n, Some (errorString ''processActionNode error: parent node is nil''))
      | Some nodes \<Rightarrow>
         (case n of
            ActionNode p line pp \<Rightarrow>
              (case Cmds pp of
                 [] \<Rightarrow> None
               | cmd # _ \<Rightarrow>
                  (case getActionArgs cmd of (funcName, name, field) \<Rightarrow>
                     if funcName = partialFunc \<and> partial then
                       (if name = []
                        then Some (parent, n,
                               Some (posErr p ''partial: path to partial file is not specified''))
                        else replaceNode nodes index p line pp cmd name
                               (case field of Some f \<Rightarrow> f | None \<Rightarrow> DotNode))
                     else if funcName = renderFunc \<and> render then
                       replaceNode nodes index p line pp cmd
                         (if name = [] then ''body'' else name) DotNode
                     else Some (parent, n, None)))
          | _ \<Rightarrow> None))"

section \<open>processNode\<close>

text \<open>
  The closure \<open>appendResult\<close>: its first argument is the pair of named results
  \<open>(ts, err)\<close> of the enclosing call, which the closure updates.
\<close>

definition appendResult ::
  "string list \<times> error option \<Rightarrow> string list \<Rightarrow> error option \<Rightarrow> string list \<times> error option" where
  "appendResult acc t err1 =
     (let err = (case err1 of Some e \<Rightarrow> err1 | None \<Rightarrow> snd acc)
      in (if err = None then fst acc @ t else fst acc, err))"

text \<open>
  \<open>processNode\<close> returns \<open>None\<close> when the source panics, and otherwise four results.
  The first is what the call leaves of the parent's \<open>Nodes\<close>: an action is the only node
  whose call assigns a slot of the parent, through \<open>processActionNode\<close>; for an action,
  a template or text node, and for the early return, the parent's nodes after the call
  are returned (\<open>None\<close> for a nil parent). A list, if, range or with node is traversed
  and changed in place: the call assigns no slot of the parent, and for the parent the
  model returns \<open>None\<close>; whoever holds the node sees it as the second result. The second
  result is the node as the call leaves it, the third and fourth are the names and the
  error. The two bodies of an if, range or with node are visited as list nodes, with the
  parent and index of the enclosing node; the call on a list node returns a list node,
  whose nodes are the body as the call leaves it.

  \<open>processNodes\<close> is the loop over the children of a list node: the nodes of the list
  as they are now, the index, the children still to visit, and the named results \<open>ts\<close>
  and \<open>err\<close> so far. The child \<open>n\<close> is the node held in slot \<open>i\<close>. After the call on it,
  the list is the one that the call returns for the parent, and when it returns none
  the slot still holds the child, as the call leaves it.
\<close>

function (sequential) processNode ::
  "node list option \<Rightarrow> int \<Rightarrow> node \<Rightarrow> error option \<Rightarrow> bool \<Rightarrow> bool
     \<Rightarrow> (node list option \<times> node \<times> string list \<times> error option) option"
and processNodes ::
  "node list \<Rightarrow> int \<Rightarrow> node list \<Rightarrow> string list \<times> error option \<Rightarrow> bool \<Rightarrow> bool
     \<Rightarrow> (node list \<times> string list \<times> error option) option"
where
  "processNode parent index n (Some e) render partial = Some (parent, n, [], Some e)"
| "processNode parent index (ActionNode p line pp) None render partial =
     (case Cmds pp of
        [] \<Rightarrow> Some (parent, ActionNode p line pp, [], None)
      | cmd # _ \<Rightarrow>
         (case getActionArgs cmd of (funcName, tname, _) \<Rightarrow>
            (if funcName = renderFunc \<or> funcName = partialFunc then
               (case processActionNode parent index (ActionNode p line pp) render partial of
                  None \<Rightarrow> None
                | Some (parent', n', Some e) \<Rightarrow> Some (parent', n', [], Some e)
                | Some (parent', n', None) \<Rightarrow>
                    Some (parent', n', (if tname \<noteq> [] then [tname] else []), None))
             else Some (parent, ActionNode p line pp, (if tname \<noteq> [] then [tname] else []), None))))"
| "processNode parent index (WithNode p line pp lst els) None render partial =
     (case processNode parent index (ListNode lst) None render partial of
        None \<Rightarrow> None
      | Some (_, l1, t1, e1) \<Rightarrow>
         (case appendResult ([], None) t1 e1 of acc1 \<Rightarrow>
            (case processNode parent index (ListNode els) (snd acc1) render partial of
               None \<Rightarrow> None
             | Some (_, l2, t2, e2) \<Rightarrow>
                (case appendResult acc1 t2 e2 of (ts, err) \<Rightarrow>
                   Some (None, WithNode p line pp (Nodes l1) (Nodes l2), ts, err)))))"
| "processNode parent index (ListNode None) None render partial =
     Some (None, ListNode None, [], None)"
| "processNode parent index (ListNode (Some nodes)) None render partial =
     (case processNodes nodes 0 nodes ([], None) render partial of
        None \<Rightarrow> None
      | Some (nodes', ts, err) \<Rightarrow> Some (None, ListNode (Some nodes'), ts, err))"
| "processNode parent index (IfNode p line pp lst els) None render partial =
     (case processNode parent index (ListNode lst) None render partial of
        None \<Rightarrow> None
      | Some (_, l1, t1, e1) \<Rightarrow>
         (case appendResult ([], None) t1 e1 of acc1 \<Rightarrow>
            (case processNode parent index (ListNode els) (snd acc1) render partial of
               None \<Rightarrow> None
             | Some (_, l2, t2, e2) \<Rightarrow>
                (case appendResult acc1 t2 e2 of (ts, err) \<Rightarrow>
                   Some (None, IfNode p line pp (Nodes l1) (Nodes l2), ts, err)))))"
| "processNode parent index (RangeNode p line pp lst els) None render partial =
     (case processNode parent index (ListNode lst) None render partial of
        None \<Rightarrow> None
      | Some (_, l1, t1, e1) \<Rightarrow>
         (case appendResult ([], None) t1 e1 of acc1 \<Rightarrow>
            (case processNode parent index (ListNode els) (snd acc1) render partial of
               None \<Rightarrow> None
             | Some (_, l2, t2, e2) \<Rightarrow>
                (case appendResult acc1 t2 e2 of (ts, err) \<Rightarrow>
                   Some (None, RangeNode p line pp (Nodes l1) (Nodes l2), ts, err)))))"
| "processNode parent index (TemplateNode p line name pp) None render partial =
     Some (parent, TemplateNode p line name pp, [], None)"
| "processNode parent index (TextNode s) None render partial =
     Some (parent, TextNode s, [], None)"
| "processNodes cur i [] acc render partial = Some (cur, fst acc, snd acc)"
| "processNodes cur i (n # ns) acc render partial =
     (case processNode (Some cur) i n (snd acc) render partial of
        None \<Rightarrow> None
      | Some (parent', n', t, e) \<Rightarrow>
          processNodes (case parent' of Some cur1 \<Rightarrow> cur1 | None \<Rightarrow> cur[nat i := n'])
            (i + 1) ns (appendResult acc t e) render partial)"
  by pat_completeness auto

termination
proof -
  have sp: "0 < size_option (size_list (size :: node \<Rightarrow> nat)) x" for x
    by (cases x) simp_all
  show ?thesis
    by (relation "measure (case_sum (\<lambda>(parent, index, n, r). 2 * size n)
                    (\<lambda>(cur, i, ns, r). 2 * size_list size ns + 1))")
       (auto simp: sp)
qed

section \<open>pos\<close>

text \<open>
  A Go string is a sequence of bytes, and a range over it yields the runes that the bytes
  encode in UTF-8, each with the byte offset where it starts; a byte that starts no valid
  encoding is one rune of width 1. \<open>runeWidth\<close> is the number of bytes of the first
  rune of a string (the Go language; RFC 3629 for the valid encodings).
\<close>

definition contByte :: "char \<Rightarrow> bool" where
  "contByte c = (128 \<le> (of_char c :: nat) \<and> (of_char c :: nat) \<le> 191)"

definition secondByte :: "nat \<Rightarrow> char \<Rightarrow> bool" where
  "secondByte b c =
     ((if b = 224 then 160 else if b = 240 then 144 else 128) \<le> (of_char c :: nat)
      \<and> (of_char c :: nat) \<le> (if b = 237 then 159 else if b = 244 then 143 else 191))"

fun runeWidth :: "string \<Rightarrow> nat" where
  "runeWidth [] = 0"
| "runeWidth (c # cs) =
     (let b = (of_char c :: nat) in
      if b < 194 \<or> 244 < b then 1
      else if b < 224 then
        (case cs of c1 # _ \<Rightarrow> if secondByte b c1 then 2 else 1 | _ \<Rightarrow> 1)
      else if b < 240 then
        (case cs of c1 # c2 # _ \<Rightarrow> if secondByte b c1 \<and> contByte c2 then 3 else 1 | _ \<Rightarrow> 1)
      else
        (case cs of
           c1 # c2 # c3 # _ \<Rightarrow> if secondByte b c1 \<and> contByte c2 \<and> contByte c3 then 4 else 1
         | _ \<Rightarrow> 1))"

text \<open>
  The loop of \<open>pos\<close>: the bytes of the body from the rune at offset \<open>i\<close> on, the offset
  \<open>i\<close>, the position looked for, and the line and column so far. The rune is a newline
  exactly when its first byte is 10.
\<close>

function posLoop :: "string \<Rightarrow> int \<Rightarrow> int \<Rightarrow> int \<times> int \<Rightarrow> int \<times> int" where
  "posLoop [] i p lc = lc"
| "posLoop (c # cs) i p lc =
     (if i \<ge> p then lc
      else posLoop (drop (runeWidth (c # cs)) (c # cs)) (i + int (runeWidth (c # cs))) p
             (if c = CHR 0x0A then (fst lc + 1, 1) else (fst lc, snd lc + 1)))"
  by pat_completeness auto

termination
  by (relation "measure (\<lambda>(body, i, p, lc). length body)")
     (auto simp: Let_def split: list.splits)

definition pos :: "string \<Rightarrow> int \<Rightarrow> int \<times> int" where
  "pos body p = posLoop body 0 p (1, 1)"

section \<open>processTree\<close>

text \<open>The verb \<open>%d\<close> of \<open>fmt.Errorf\<close>: an integer in decimal.\<close>

fun digits :: "nat \<Rightarrow> string" where
  "digits n = (if n < 10 then [''0123456789'' ! n]
               else digits (n div 10) @ [''0123456789'' ! (n mod 10)])"

definition itoa :: "int \<Rightarrow> string" where
  "itoa i = (if i < 0 then CHR ''-'' # digits (nat (- i)) else digits (nat i))"

text \<open>
  The statements of \<open>processTree\<close> after the call of \<open>processNode\<close>: what is returned
  for the names and the error of the traversal.
\<close>

definition processTreeResult ::
  "string \<Rightarrow> string \<Rightarrow> string list \<Rightarrow> error option \<Rightarrow> string list \<times> error option" where
  "processTreeResult name raw ts err =
     (case err of
        Some (posErr p message) \<Rightarrow>
          (case pos raw p of (line, col) \<Rightarrow>
             (ts, Some (wrapError
                    (name @ '':'' @ itoa line @ '':'' @ itoa col @ '': '' @ Error (posErr p message))
                    (posErr p message))))
      | _ \<Rightarrow> (ts, None))"

text \<open>
  The result is \<open>None\<close> when the source panics, and otherwise the template with its tree as
  the pass leaves it, the names and the error.
\<close>

definition processTree ::
  "template \<Rightarrow> string \<Rightarrow> bool \<Rightarrow> bool \<Rightarrow> (template \<times> string list \<times> error option) option" where
  "processTree t raw render partial =
     (case processNode None 0 (ListNode (Root t)) None render partial of
        None \<Rightarrow> None
      | Some (parent', root', ts, err) \<Rightarrow>
          Some (t\<lparr>Root := Nodes root'\<rparr>, processTreeResult (Name t) raw ts err))"

section \<open>Notions of the specification\<close>

text \<open>
  The action nodes of a tree in document order: the nodes that the traversal visits as
  actions. Template nodes and text are no actions.
\<close>

fun actions :: "node \<Rightarrow> node list" where
  "actions (ActionNode p line pp) = [ActionNode p line pp]"
| "actions (ListNode lst) = (case lst of None \<Rightarrow> [] | Some ns \<Rightarrow> concat (map actions ns))"
| "actions (IfNode p line pp lst els) =
     (case lst of None \<Rightarrow> [] | Some ns \<Rightarrow> concat (map actions ns)) @
     (case els of None \<Rightarrow> [] | Some ns \<Rightarrow> concat (map actions ns))"
| "actions (RangeNode p line pp lst els) =
     (case lst of None \<Rightarrow> [] | Some ns \<Rightarrow> concat (map actions ns)) @
     (case els of None \<Rightarrow> [] | Some ns \<Rightarrow> concat (map actions ns))"
| "actions (WithNode p line pp lst els) =
     (case lst of None \<Rightarrow> [] | Some ns \<Rightarrow> concat (map actions ns)) @
     (case els of None \<Rightarrow> [] | Some ns \<Rightarrow> concat (map actions ns))"
| "actions (TemplateNode p line name pp) = []"
| "actions (TextNode s) = []"

text \<open>
  The literal names of a tree in document order: for each action with a command whose
  second argument is a non-empty string, that string.
\<close>

fun names :: "node \<Rightarrow> string list" where
  "names (ActionNode p line pp) =
     (case Cmds pp of
        [] \<Rightarrow> []
      | cmd # _ \<Rightarrow>
         (case getActionArgs cmd of (fn, name, field) \<Rightarrow> if name \<noteq> [] then [name] else []))"
| "names (ListNode lst) = (case lst of None \<Rightarrow> [] | Some ns \<Rightarrow> concat (map names ns))"
| "names (IfNode p line pp lst els) =
     (case lst of None \<Rightarrow> [] | Some ns \<Rightarrow> concat (map names ns)) @
     (case els of None \<Rightarrow> [] | Some ns \<Rightarrow> concat (map names ns))"
| "names (RangeNode p line pp lst els) =
     (case lst of None \<Rightarrow> [] | Some ns \<Rightarrow> concat (map names ns)) @
     (case els of None \<Rightarrow> [] | Some ns \<Rightarrow> concat (map names ns))"
| "names (WithNode p line pp lst els) =
     (case lst of None \<Rightarrow> [] | Some ns \<Rightarrow> concat (map names ns)) @
     (case els of None \<Rightarrow> [] | Some ns \<Rightarrow> concat (map names ns))"
| "names (TemplateNode p line name pp) = []"
| "names (TextNode s) = []"

text \<open>
  The byte offset of the first action of a tree, in document order, that invokes
  \<open>partial\<close> without a name while the partial mode is on.
\<close>

fun firstDefined :: "'a option list \<Rightarrow> 'a option" where
  "firstDefined [] = None"
| "firstDefined (Some x # xs) = Some x"
| "firstDefined (None # xs) = firstDefined xs"

fun firstBad :: "bool \<Rightarrow> node \<Rightarrow> int option" where
  "firstBad partial (ActionNode p line pp) =
     (case Cmds pp of
        [] \<Rightarrow> None
      | cmd # _ \<Rightarrow>
         (case getActionArgs cmd of (fn, name, field) \<Rightarrow>
            if fn = partialFunc \<and> partial \<and> name = [] then Some p else None))"
| "firstBad partial (ListNode lst) =
     (case lst of None \<Rightarrow> None | Some ns \<Rightarrow> firstDefined (map (firstBad partial) ns))"
| "firstBad partial (IfNode p line pp lst els) =
     firstDefined [case lst of None \<Rightarrow> None | Some ns \<Rightarrow> firstDefined (map (firstBad partial) ns),
                   case els of None \<Rightarrow> None | Some ns \<Rightarrow> firstDefined (map (firstBad partial) ns)]"
| "firstBad partial (RangeNode p line pp lst els) =
     firstDefined [case lst of None \<Rightarrow> None | Some ns \<Rightarrow> firstDefined (map (firstBad partial) ns),
                   case els of None \<Rightarrow> None | Some ns \<Rightarrow> firstDefined (map (firstBad partial) ns)]"
| "firstBad partial (WithNode p line pp lst els) =
     firstDefined [case lst of None \<Rightarrow> None | Some ns \<Rightarrow> firstDefined (map (firstBad partial) ns),
                   case els of None \<Rightarrow> None | Some ns \<Rightarrow> firstDefined (map (firstBad partial) ns)]"
| "firstBad partial (TemplateNode p line name pp) = None"
| "firstBad partial (TextNode s) = None"

text \<open>
  The error of a call of \<open>processNode\<close> that has its parent list: the error passed in,
  or else the positioned error of the first \<open>partial\<close> without a name.
\<close>

definition errOf :: "error option \<Rightarrow> bool \<Rightarrow> node \<Rightarrow> error option" where
  "errOf perr partial n =
     (case perr of
        Some e \<Rightarrow> Some e
      | None \<Rightarrow> map_option (\<lambda>q. posErr q ''partial: path to partial file is not specified'')
                  (firstBad partial n))"

text \<open>A tree with no action that invokes \<open>render\<close> or \<open>partial\<close>.\<close>

fun plain :: "node \<Rightarrow> bool" where
  "plain (ActionNode p line pp) =
     (case Cmds pp of
        [] \<Rightarrow> True
      | cmd # _ \<Rightarrow>
         (case getActionArgs cmd of (fn, name, field) \<Rightarrow> fn \<noteq> renderFunc \<and> fn \<noteq> partialFunc))"
| "plain (ListNode lst) = (case lst of None \<Rightarrow> True | Some ns \<Rightarrow> list_all plain ns)"
| "plain (IfNode p line pp lst els) =
     ((case lst of None \<Rightarrow> True | Some ns \<Rightarrow> list_all plain ns) \<and>
      (case els of None \<Rightarrow> True | Some ns \<Rightarrow> list_all plain ns))"
| "plain (RangeNode p line pp lst els) =
     ((case lst of None \<Rightarrow> True | Some ns \<Rightarrow> list_all plain ns) \<and>
      (case els of None \<Rightarrow> True | Some ns \<Rightarrow> list_all plain ns))"
| "plain (WithNode p line pp lst els) =
     ((case lst of None \<Rightarrow> True | Some ns \<Rightarrow> list_all plain ns) \<and>
      (case els of None \<Rightarrow> True | Some ns \<Rightarrow> list_all plain ns))"
| "plain (TemplateNode p line name pp) = True"
| "plain (TextNode s) = True"

text \<open>
  The tree after the pass, as the specification words it: in document order every
  \<open>render\<close> and \<open>partial\<close> action of an enabled mode is replaced by its template node,
  up to the first \<open>partial\<close> without a name; that action and everything after it are
  left as they were. \<open>rewrittenList\<close> does so for the children of a list: a child is
  rewritten, and the children after it only if it holds no such \<open>partial\<close>.
\<close>

function rewritten :: "bool \<Rightarrow> bool \<Rightarrow> node \<Rightarrow> node"
and rewrittenList :: "bool \<Rightarrow> bool \<Rightarrow> node list \<Rightarrow> node list"
where
  "rewritten render partial (ActionNode p line pp) =
     (case Cmds pp of
        [] \<Rightarrow> ActionNode p line pp
      | cmd # _ \<Rightarrow>
         (case getActionArgs cmd of (fn, name, field) \<Rightarrow>
            if fn = partialFunc \<and> partial then
              (if name = [] then ActionNode p line pp
               else TemplateNode p line name
                      (Some (pp\<lparr>Cmds := [cmd\<lparr>Args :=
                         [case field of Some f \<Rightarrow> f | None \<Rightarrow> DotNode]\<rparr>]\<rparr>)))
            else if fn = renderFunc \<and> render then
              TemplateNode p line (if name = [] then ''body'' else name)
                (Some (pp\<lparr>Cmds := [cmd\<lparr>Args := [DotNode]\<rparr>]\<rparr>))
            else ActionNode p line pp))"
| "rewritten render partial (ListNode lst) =
     ListNode (case lst of None \<Rightarrow> None | Some ns \<Rightarrow> Some (rewrittenList render partial ns))"
| "rewritten render partial (IfNode p line pp lst els) =
     IfNode p line pp
       (case lst of None \<Rightarrow> None | Some ns \<Rightarrow> Some (rewrittenList render partial ns))
       (if firstBad partial (ListNode lst) = None
        then (case els of None \<Rightarrow> None | Some ns \<Rightarrow> Some (rewrittenList render partial ns))
        else els)"
| "rewritten render partial (RangeNode p line pp lst els) =
     RangeNode p line pp
       (case lst of None \<Rightarrow> None | Some ns \<Rightarrow> Some (rewrittenList render partial ns))
       (if firstBad partial (ListNode lst) = None
        then (case els of None \<Rightarrow> None | Some ns \<Rightarrow> Some (rewrittenList render partial ns))
        else els)"
| "rewritten render partial (WithNode p line pp lst els) =
     WithNode p line pp
       (case lst of None \<Rightarrow> None | Some ns \<Rightarrow> Some (rewrittenList render partial ns))
       (if firstBad partial (ListNode lst) = None
        then (case els of None \<Rightarrow> None | Some ns \<Rightarrow> Some (rewrittenList render partial ns))
        else els)"
| "rewritten render partial (TemplateNode p line name pp) = TemplateNode p line name pp"
| "rewritten render partial (TextNode s) = TextNode s"
| "rewrittenList render partial [] = []"
| "rewrittenList render partial (n # ns) =
     rewritten render partial n #
       (if firstBad partial n = None then rewrittenList render partial ns else ns)"
  by pat_completeness auto

termination
  by (relation "measure (case_sum (\<lambda>(render, partial, n). 2 * size n)
                  (\<lambda>(render, partial, ns). 2 * size_list size ns + 1))")
     auto

text \<open>
  The names that a call returns, as the specification words them: those of the
  children of a list before the first child with an error; for an if, range or with
  node nothing when the first body has an error, and else the names of the first body,
  with those of the else body when it has no error either; for an action its name,
  unless it is the \<open>partial\<close> without a name.
\<close>

definition collectedList :: "bool \<Rightarrow> node list \<Rightarrow> string list" where
  "collectedList partial ns =
     concat (map names (takeWhile (\<lambda>n. firstBad partial n = None) ns))"

definition collectedBodies :: "bool \<Rightarrow> node list option \<Rightarrow> node list option \<Rightarrow> string list" where
  "collectedBodies partial lst els =
     (if firstBad partial (ListNode lst) \<noteq> None then []
      else names (ListNode lst) @
           (if firstBad partial (ListNode els) = None then names (ListNode els) else []))"

fun collected :: "bool \<Rightarrow> node \<Rightarrow> string list" where
  "collected partial (ActionNode p line pp) =
     (if firstBad partial (ActionNode p line pp) = None then names (ActionNode p line pp) else [])"
| "collected partial (ListNode lst) =
     (case lst of None \<Rightarrow> [] | Some ns \<Rightarrow> collectedList partial ns)"
| "collected partial (IfNode p line pp lst els) = collectedBodies partial lst els"
| "collected partial (RangeNode p line pp lst els) = collectedBodies partial lst els"
| "collected partial (WithNode p line pp lst els) = collectedBodies partial lst els"
| "collected partial (TemplateNode p line name pp) = []"
| "collected partial (TextNode s) = []"

text \<open>The nodes that the traversal changes in place: list, if, range and with nodes.\<close>

fun container :: "node \<Rightarrow> bool" where
  "container (ListNode lst) = True"
| "container (IfNode p line pp lst els) = True"
| "container (RangeNode p line pp lst els) = True"
| "container (WithNode p line pp lst els) = True"
| "container n = False"

text \<open>
  The line and column as the specification words them: the characters of the source
  that start before the offset are scanned in order, from line 1 and column 1; a newline
  increments the line and resets the column, any other character advances the column.
  \<open>runes\<close> cuts a string into its characters, each the bytes of one rune, and
  \<open>scanned\<close> keeps those that start before the offset.
\<close>

function runes :: "string \<Rightarrow> string list" where
  "runes [] = []"
| "runes (c # cs) = take (runeWidth (c # cs)) (c # cs) # runes (drop (runeWidth (c # cs)) (c # cs))"
  by pat_completeness auto

termination
  by (relation "measure length") (auto simp: Let_def split: list.splits)

fun scanned :: "string list \<Rightarrow> int \<Rightarrow> int \<Rightarrow> string list" where
  "scanned [] i p = []"
| "scanned (r # rs) i p = (if i < p then r # scanned rs (i + int (length r)) p else [])"

definition posSpec :: "string \<Rightarrow> int \<Rightarrow> int \<times> int" where
  "posSpec raw p =
     foldl (\<lambda>lc r. if r = [CHR 0x0A] then (fst lc + 1, 1) else (fst lc, snd lc + 1))
       (1, 1) (scanned (runes raw) 0 p)"

section \<open>Example trees\<close>

text \<open>
  An action node with one command, and the template node that replaces it, both on
  line 1 and with no declarations.
\<close>

definition action :: "int \<Rightarrow> arg list \<Rightarrow> node" where
  "action p as = ActionNode p 1 \<lparr>IsAssign = False, Decl = [], Cmds = [\<lparr>Args = as\<rparr>]\<rparr>"

definition invocation :: "int \<Rightarrow> string \<Rightarrow> arg \<Rightarrow> node" where
  "invocation p name a =
     TemplateNode p 1 name (Some \<lparr>IsAssign = False, Decl = [], Cmds = [\<lparr>Args = [a]\<rparr>]\<rparr>)"

text \<open>
  The example of the specification: the source text, and the tree the parser builds for
  it (three actions, at the byte offsets 2, 22 and 32 that follow the opening
  delimiters).
\<close>

definition exampleRaw :: string where
  "exampleRaw = ''{{partial \"a.html\"}}{{render}}{{render \"foot\" .Foo}}''"

definition exampleTree :: template where
  "exampleTree =
     \<lparr>Name = ''page.html'',
      Root = Some [action 2 [IdentifierNode ''partial'', StringNode ''a.html''],
                   action 22 [IdentifierNode ''render''],
                   action 32 [IdentifierNode ''render'', StringNode ''foot'',
                              FieldNode [''Foo'']]]\<rparr>"

text \<open>
  A template that invokes another one directly: the tree of the source
  \<open>{{template "head" .}}\<close>, whose template node has the offset of the name.
\<close>

definition templateTree :: template where
  "templateTree = \<lparr>Name = ''layout.html'', Root = Some [invocation 11 ''head'' DotNode]\<rparr>"

text \<open>
  A tree with no \<open>render\<close> and no \<open>partial\<close>: the source \<open>hi {{printf "x"}}\<close>.
\<close>

definition plainTree :: template where
  "plainTree =
     \<lparr>Name = ''plain.html'',
      Root = Some [TextNode ''hi '', action 5 [IdentifierNode ''printf'', StringNode ''x'']]\<rparr>"

text \<open>
  A \<open>partial\<close> without a name on the second line of the source, inside a conditional
  and before a \<open>render\<close>: the source text and its tree. The action is at byte offset 14,
  the twelfth character of line 2.
\<close>

definition namelessRaw :: string where
  "namelessRaw = [CHR ''a'', CHR ''b'', CHR 0x0A] @ ''{{if .X}}{{partial}}{{end}}{{render}}''"

definition namelessTree :: template where
  "namelessTree =
     \<lparr>Name = ''page.html'',
      Root = Some [TextNode [CHR ''a'', CHR ''b'', CHR 0x0A],
                   IfNode 8 2 \<lparr>IsAssign = False, Decl = [], Cmds = [\<lparr>Args = [FieldNode [''X'']]\<rparr>]\<rparr>
                     (Some [ActionNode 14 2 \<lparr>IsAssign = False, Decl = [],
                              Cmds = [\<lparr>Args = [IdentifierNode ''partial'']\<rparr>]\<rparr>])
                     None,
                   ActionNode 32 2 \<lparr>IsAssign = False, Decl = [],
                     Cmds = [\<lparr>Args = [IdentifierNode ''render'']\<rparr>]\<rparr>]\<rparr>"

text \<open>
  Two \<open>partial\<close> actions without a name, the second on line 2 at byte offset 14: the
  source text and its tree.
\<close>

definition twoNamelessRaw :: string where
  "twoNamelessRaw = ''{{partial}}'' @ [CHR 0x0A] @ ''{{partial}}''"

definition twoNamelessTree :: template where
  "twoNamelessTree =
     \<lparr>Name = ''page.html'',
      Root = Some [action 2 [IdentifierNode ''partial''],
                   TextNode [CHR 0x0A],
                   ActionNode 14 2 \<lparr>IsAssign = False, Decl = [],
                     Cmds = [\<lparr>Args = [IdentifierNode ''partial'']\<rparr>]\<rparr>]\<rparr>"

text \<open>
  Rewrites before an error: a \<open>render\<close> inside a conditional and a named \<open>partial\<close>,
  then a \<open>partial\<close> without a name at byte offset 48, then a \<open>render\<close>. The source text,
  its tree, and the tree in which the actions before the error are rewritten.
\<close>

definition errorRaw :: string where
  "errorRaw = ''{{if .X}}{{render}}{{end}}{{partial \"a.html\"}}{{partial}}{{render \"foot\"}}''"

definition errorTree :: template where
  "errorTree =
     \<lparr>Name = ''page.html'',
      Root = Some [IfNode 5 1 \<lparr>IsAssign = False, Decl = [], Cmds = [\<lparr>Args = [FieldNode [''X'']]\<rparr>]\<rparr>
                     (Some [action 11 [IdentifierNode ''render'']]) None,
                   action 28 [IdentifierNode ''partial'', StringNode ''a.html''],
                   action 48 [IdentifierNode ''partial''],
                   action 59 [IdentifierNode ''render'', StringNode ''foot'']]\<rparr>"

definition errorTreeAfter :: template where
  "errorTreeAfter =
     \<lparr>Name = ''page.html'',
      Root = Some [IfNode 5 1 \<lparr>IsAssign = False, Decl = [], Cmds = [\<lparr>Args = [FieldNode [''X'']]\<rparr>]\<rparr>
                     (Some [invocation 11 ''body'' DotNode]) None,
                   invocation 28 ''a.html'' DotNode,
                   action 48 [IdentifierNode ''partial''],
                   action 59 [IdentifierNode ''render'', StringNode ''foot'']]\<rparr>"

section \<open>Auxiliary facts about the traversal\<close>

lemma nat_succ: "0 \<le> i \<Longrightarrow> nat (i + 1) = Suc (nat i)"
  by simp

lemma drop_head: "drop k xs = y # ys \<Longrightarrow> k < length xs \<and> xs ! k = y \<and> drop (Suc k) xs = ys"
  by (metis Cons_nth_drop_Suc drop_eq_Nil list.distinct(1) list.inject not_le)

lemma take_Suc_drop: "drop k xs = y # ys \<Longrightarrow> take (Suc k) xs = take k xs @ [y]"
  using drop_head [of k xs y ys] by (simp add: take_Suc_conv_app_nth)

lemma processNodes_error:
  "0 \<le> i \<Longrightarrow> drop (nat i) cur = ns \<Longrightarrow>
     processNodes cur i ns (ts, Some e) render partial = Some (cur, ts, Some e)"
proof (induction ns arbitrary: i)
  case Nil
  then show ?case by simp
next
  case (Cons n ns)
  from Cons.prems have d: "drop (nat (i + 1)) cur = ns"
    by (simp add: nat_succ drop_head)
  from Cons.prems have a: "cur[nat i := n] = cur"
    using drop_head [of "nat i" cur n ns] by (simp add: list_update_same_conv)
  show ?case
    using Cons.IH [of "i + 1"] Cons.prems(1) d a
    by (simp add: appendResult_def)
qed

lemma firstDefined_None: "(firstDefined xs = None) = (\<forall>x\<in>set xs. x = None)"
  by (induction xs rule: firstDefined.induct) auto

lemma collected_names: "firstBad partial n = None \<Longrightarrow> collected partial n = names n"
proof (cases n)
  case (ListNode lst)
  assume a: "firstBad partial n = None"
  show ?thesis
  proof (cases lst)
    case None
    with ListNode show ?thesis by simp
  next
    case (Some ns)
    with a ListNode have "\<forall>x\<in>set ns. firstBad partial x = None"
      by (auto simp: firstDefined_None)
    then have tw: "takeWhile (\<lambda>n. firstBad partial n = None) ns = ns"
      by (simp add: takeWhile_eq_all_conv)
    from Some ListNode show ?thesis by (simp add: collectedList_def tw)
  qed
next
  case (IfNode p line pp lst els)
  assume "firstBad partial n = None"
  with IfNode show ?thesis
    by (cases lst; cases els) (auto simp: collectedBodies_def split: option.splits if_splits)
next
  case (RangeNode p line pp lst els)
  assume "firstBad partial n = None"
  with RangeNode show ?thesis
    by (cases lst; cases els) (auto simp: collectedBodies_def split: option.splits if_splits)
next
  case (WithNode p line pp lst els)
  assume "firstBad partial n = None"
  with WithNode show ?thesis
    by (cases lst; cases els) (auto simp: collectedBodies_def split: option.splits if_splits)
qed simp_all

lemma processNode_action:
  assumes "0 \<le> index" and "index < int (length l)" and "l ! nat index = ActionNode p line pp"
  shows "\<exists>N. processNode (Some l) index (ActionNode p line pp) None render partial =
           Some (Some (l[nat index := rewritten render partial (ActionNode p line pp)]), N,
                 collected partial (ActionNode p line pp),
                 errOf None partial (ActionNode p line pp))"
proof -
  from assms have same: "l[nat index := ActionNode p line pp] = l"
    by (simp add: list_update_same_conv)
  show ?thesis
    using assms(1,2) same
    by (auto simp: processActionNode_def replaceNode_def Let_def errOf_def
          renderFunc_def partialFunc_def
        split: list.splits prod.splits option.splits)
qed

lemma child_result:
  assumes "0 \<le> i" and "drop (nat i) cur = n # ns"
      and "container n \<Longrightarrow>
             processNode (Some cur) i n None render partial =
               Some (None, rewritten render partial n, collected partial n, errOf None partial n)"
  shows "\<exists>F N. processNode (Some cur) i n None render partial =
                  Some (F, N, collected partial n, errOf None partial n)
               \<and> (case F of Some cur1 \<Rightarrow> cur1 | None \<Rightarrow> cur[nat i := N]) =
                   cur[nat i := rewritten render partial n]"
proof -
  from assms(2) have hd: "nat i < length cur" "cur ! nat i = n"
    using drop_head [of "nat i" cur n ns] by auto
  with assms(1) have valid: "0 \<le> i" "i < int (length cur)" by auto
  from hd have same: "cur[nat i := n] = cur" by (simp add: list_update_same_conv)
  show ?thesis
  proof (cases n)
    case (ActionNode p line pp)
    with processNode_action [OF valid, of p line pp render partial] hd show ?thesis
      by auto
  next
    case (TemplateNode p line name pp)
    with same show ?thesis by (simp add: errOf_def)
  next
    case (TextNode s)
    with same show ?thesis by (simp add: errOf_def)
  next
    case (ListNode lst)
    with assms(3) show ?thesis by simp
  next
    case (IfNode p line pp lst els)
    with assms(3) show ?thesis by simp
  next
    case (RangeNode p line pp lst els)
    with assms(3) show ?thesis by simp
  next
    case (WithNode p line pp lst els)
    with assms(3) show ?thesis by simp
  qed
qed

lemma branch_result:
  assumes "processNode parent index (ListNode lst) None render partial = Some (f1, l1, t1, e1)"
      and "processNode parent index (ListNode els) (snd (appendResult ([], None) t1 e1))
             render partial = Some (f2, l2, t2, e2)"
  shows "processNode parent index (WithNode p line pp lst els) None render partial =
           Some (None, WithNode p line pp (Nodes l1) (Nodes l2),
                 appendResult (appendResult ([], None) t1 e1) t2 e2)"
    and "processNode parent index (IfNode p line pp lst els) None render partial =
           Some (None, IfNode p line pp (Nodes l1) (Nodes l2),
                 appendResult (appendResult ([], None) t1 e1) t2 e2)"
    and "processNode parent index (RangeNode p line pp lst els) None render partial =
           Some (None, RangeNode p line pp (Nodes l1) (Nodes l2),
                 appendResult (appendResult ([], None) t1 e1) t2 e2)"
  using assms by (simp_all add: case_prod_beta del: processNode.simps(4,5))


lemma branch_refines:
  assumes first: "processNode parent index (ListNode lst) None render partial =
      Some (None, rewritten render partial (ListNode lst), collected partial (ListNode lst),
            errOf None partial (ListNode lst))"
    and second: "firstBad partial (ListNode lst) = None \<Longrightarrow>
      processNode parent index (ListNode els) None render partial =
        Some (None, rewritten render partial (ListNode els), collected partial (ListNode els),
              errOf None partial (ListNode els))"
  shows "processNode parent index (WithNode p line pp lst els) None render partial =
           Some (None, rewritten render partial (WithNode p line pp lst els),
                 collected partial (WithNode p line pp lst els),
                 errOf None partial (WithNode p line pp lst els))"
    and "processNode parent index (IfNode p line pp lst els) None render partial =
           Some (None, rewritten render partial (IfNode p line pp lst els),
                 collected partial (IfNode p line pp lst els),
                 errOf None partial (IfNode p line pp lst els))"
    and "processNode parent index (RangeNode p line pp lst els) None render partial =
           Some (None, rewritten render partial (RangeNode p line pp lst els),
                 collected partial (RangeNode p line pp lst els),
                 errOf None partial (RangeNode p line pp lst els))"
proof -
  let ?t1 = "collected partial (ListNode lst)"
  let ?e1 = "errOf None partial (ListNode lst)"
  have "\<exists>f2 l2 t2 e2.
      processNode parent index (ListNode els) (snd (appendResult ([], None) ?t1 ?e1))
        render partial = Some (f2, l2, t2, e2)
      \<and> Nodes l2 = (if firstBad partial (ListNode lst) = None
                     then Nodes (rewritten render partial (ListNode els)) else els)
      \<and> appendResult (appendResult ([], None) ?t1 ?e1) t2 e2 =
          (collectedBodies partial lst els, errOf None partial (WithNode p line pp lst els))"
  proof (cases "firstBad partial (ListNode lst)")
    case None
    then have e1: "?e1 = None" by (simp add: errOf_def)
    from None have c1: "?t1 = names (ListNode lst)" by (rule collected_names)
    have perr: "snd (appendResult ([], None) ?t1 ?e1) = None"
      by (simp add: e1 appendResult_def)
    show ?thesis
    proof (cases "firstBad partial (ListNode els)")
      case None2: None
      then have c2: "collected partial (ListNode els) = names (ListNode els)"
        by (rule collected_names)
      from None2 have e2: "errOf None partial (ListNode els) = None" by (simp add: errOf_def)
      have ap: "appendResult (appendResult ([], None) ?t1 ?e1)
                  (collected partial (ListNode els)) (errOf None partial (ListNode els)) =
                (collectedBodies partial lst els, errOf None partial (WithNode p line pp lst els))"
        using None None2
        by (simp add: e1 e2 c1 c2 appendResult_def collectedBodies_def errOf_def
              del: collected.simps names.simps)
      from second [OF None] None ap show ?thesis
        unfolding perr by (intro exI conjI) (assumption, simp, assumption)
    next
      case (Some q)
      then have e2: "errOf None partial (ListNode els) =
          Some (posErr q ''partial: path to partial file is not specified'')"
        by (simp add: errOf_def)
      have ap: "appendResult (appendResult ([], None) ?t1 ?e1)
                  (collected partial (ListNode els)) (errOf None partial (ListNode els)) =
                (collectedBodies partial lst els, errOf None partial (WithNode p line pp lst els))"
        using None Some
        by (simp add: e1 e2 c1 appendResult_def collectedBodies_def errOf_def
              del: collected.simps names.simps)
      from second [OF None] None ap show ?thesis
        unfolding perr by (intro exI conjI) (assumption, simp, assumption)
    qed
  next
    case (Some q)
    then have e1: "?e1 = Some (posErr q ''partial: path to partial file is not specified'')"
      by (simp add: errOf_def)
    have call: "processNode parent index (ListNode els) (snd (appendResult ([], None) ?t1 ?e1))
        render partial =
        Some (parent, ListNode els, [],
              Some (posErr q ''partial: path to partial file is not specified''))"
      by (simp add: e1 appendResult_def)
    have ap: "appendResult (appendResult ([], None) ?t1 ?e1) []
                (Some (posErr q ''partial: path to partial file is not specified'')) =
              (collectedBodies partial lst els, errOf None partial (WithNode p line pp lst els))"
      using Some
      by (simp add: e1 appendResult_def collectedBodies_def errOf_def
            del: collected.simps names.simps)
    from call Some ap show ?thesis
      by (intro exI conjI) (assumption, simp, assumption)
  qed
  then obtain f2 l2 t2 e2 where
    call: "processNode parent index (ListNode els) (snd (appendResult ([], None) ?t1 ?e1))
        render partial = Some (f2, l2, t2, e2)"
    and nodes: "Nodes l2 = (if firstBad partial (ListNode lst) = None
                     then Nodes (rewritten render partial (ListNode els)) else els)"
    and ap: "appendResult (appendResult ([], None) ?t1 ?e1) t2 e2 =
          (collectedBodies partial lst els, errOf None partial (WithNode p line pp lst els))"
    by blast
  have er: "errOf None partial (IfNode p line pp lst els) = errOf None partial (WithNode p line pp lst els)"
      "errOf None partial (RangeNode p line pp lst els) = errOf None partial (WithNode p line pp lst els)"
    by (simp_all add: errOf_def)
  from branch_result(1) [OF first call, of p line pp] nodes ap
  show "processNode parent index (WithNode p line pp lst els) None render partial =
           Some (None, rewritten render partial (WithNode p line pp lst els),
                 collected partial (WithNode p line pp lst els),
                 errOf None partial (WithNode p line pp lst els))"
    by (simp del: processNode.simps)
  from branch_result(2) [OF first call, of p line pp] nodes ap er
  show "processNode parent index (IfNode p line pp lst els) None render partial =
           Some (None, rewritten render partial (IfNode p line pp lst els),
                 collected partial (IfNode p line pp lst els),
                 errOf None partial (IfNode p line pp lst els))"
    by (simp del: processNode.simps)
  from branch_result(3) [OF first call, of p line pp] nodes ap er
  show "processNode parent index (RangeNode p line pp lst els) None render partial =
           Some (None, rewritten render partial (RangeNode p line pp lst els),
                 collected partial (RangeNode p line pp lst els),
                 errOf None partial (RangeNode p line pp lst els))"
    by (simp del: processNode.simps)
qed

lemma processNode_refines:
  "perr = None \<Longrightarrow> container n \<Longrightarrow>
     processNode parent index n perr render partial =
       Some (None, rewritten render partial n, collected partial n, errOf None partial n)"
  and
  "0 \<le> i \<Longrightarrow> drop (nat i) cur = ns \<Longrightarrow>
     processNodes cur i ns acc render partial =
       Some (take (nat i) cur @ (if snd acc = None then rewrittenList render partial ns else ns),
             fst acc @ (if snd acc = None then collectedList partial ns else []),
             errOf (snd acc) partial (ListNode (Some ns)))"
proof (induction parent index n perr render partial and cur i ns acc render partial
       rule: processNode_processNodes.induct)
  case (1 parent index n e render partial)
  then show ?case by simp
next
  case (2 parent index p line pp render partial)
  then show ?case by simp
next
  case (3 parent index p line pp lst els render partial)
  have first: "processNode parent index (ListNode lst) None render partial =
      Some (None, rewritten render partial (ListNode lst), collected partial (ListNode lst),
            errOf None partial (ListNode lst))"
    by (rule "3.IH"(1)) simp_all
  have second: "processNode parent index (ListNode els) None render partial =
      Some (None, rewritten render partial (ListNode els), collected partial (ListNode els),
            errOf None partial (ListNode els))"
    if "firstBad partial (ListNode lst) = None"
  proof -
    from that have "snd (appendResult ([], None) (collected partial (ListNode lst))
        (errOf None partial (ListNode lst))) = None"
      by (simp add: errOf_def appendResult_def)
    from "3.IH"(2) [OF first refl refl refl this] this show ?thesis by simp
  qed
  show ?case by (rule branch_refines(1) [OF first second])
next
  case (4 parent index render partial)
  then show ?case by (simp add: errOf_def)
next
  case (5 parent index nodes render partial)
  from "5.IH" [of] have "processNodes nodes 0 nodes ([], None) render partial =
      Some (rewrittenList render partial nodes, collectedList partial nodes,
            errOf None partial (ListNode (Some nodes)))"
    by simp
  then show ?case by simp
next
  case (6 parent index p line pp lst els render partial)
  have first: "processNode parent index (ListNode lst) None render partial =
      Some (None, rewritten render partial (ListNode lst), collected partial (ListNode lst),
            errOf None partial (ListNode lst))"
    by (rule "6.IH"(1)) simp_all
  have second: "processNode parent index (ListNode els) None render partial =
      Some (None, rewritten render partial (ListNode els), collected partial (ListNode els),
            errOf None partial (ListNode els))"
    if "firstBad partial (ListNode lst) = None"
  proof -
    from that have "snd (appendResult ([], None) (collected partial (ListNode lst))
        (errOf None partial (ListNode lst))) = None"
      by (simp add: errOf_def appendResult_def)
    from "6.IH"(2) [OF first refl refl refl this] this show ?thesis by simp
  qed
  show ?case by (rule branch_refines(2) [OF first second])
next
  case (7 parent index p line pp lst els render partial)
  have first: "processNode parent index (ListNode lst) None render partial =
      Some (None, rewritten render partial (ListNode lst), collected partial (ListNode lst),
            errOf None partial (ListNode lst))"
    by (rule "7.IH"(1)) simp_all
  have second: "processNode parent index (ListNode els) None render partial =
      Some (None, rewritten render partial (ListNode els), collected partial (ListNode els),
            errOf None partial (ListNode els))"
    if "firstBad partial (ListNode lst) = None"
  proof -
    from that have "snd (appendResult ([], None) (collected partial (ListNode lst))
        (errOf None partial (ListNode lst))) = None"
      by (simp add: errOf_def appendResult_def)
    from "7.IH"(2) [OF first refl refl refl this] this show ?thesis by simp
  qed
  show ?case by (rule branch_refines(3) [OF first second])
next
  case (8 parent index p line name pp render partial)
  then show ?case by simp
next
  case (9 parent index s render partial)
  then show ?case by simp
next
  case (10 cur i acc render partial)
  then show ?case
    by (cases acc) (auto simp: errOf_def collectedList_def split: option.splits)
next
  case (11 cur i n ns acc render partial)
  from "11.prems" have i1: "0 \<le> i + 1" by simp
  from "11.prems" have dr: "drop (Suc (nat i)) cur = ns"
    using drop_head [of "nat i" cur n ns] by simp
  from "11.prems" have tk: "take (Suc (nat i)) cur = take (nat i) cur @ [n]"
    by (simp add: take_Suc_drop)
  from "11.prems" have hd: "nat i < length cur" "cur ! nat i = n"
    using drop_head [of "nat i" cur n ns] by auto
  show ?case
  proof (cases "snd acc")
    case (Some e)
    have first: "processNode (Some cur) i n (snd acc) render partial = Some (Some cur, n, [], Some e)"
      by (simp add: Some)
    from "11.prems"(1) dr have d': "drop (nat (i + 1)) cur = ns" by (simp add: nat_succ)
    have rest: "processNodes cur (i + 1) ns (appendResult acc [] (Some e)) render partial =
        Some (take (nat (i + 1)) cur @
                (if snd (appendResult acc [] (Some e)) = None then rewrittenList render partial ns
                 else ns),
              fst (appendResult acc [] (Some e)) @
                (if snd (appendResult acc [] (Some e)) = None then collectedList partial ns else []),
              errOf (snd (appendResult acc [] (Some e))) partial (ListNode (Some ns)))"
      using "11.IH"(2) [OF first refl refl refl i1] d' by simp
    have step: "processNodes cur i (n # ns) acc render partial =
        processNodes cur (i + 1) ns (appendResult acc [] (Some e)) render partial"
      using first by simp
    show ?thesis
      unfolding step rest
      using Some "11.prems"(1) tk
      by (simp add: appendResult_def errOf_def nat_succ)
  next
    case None
    have "container n \<Longrightarrow>
        processNode (Some cur) i n None render partial =
          Some (None, rewritten render partial n, collected partial n, errOf None partial n)"
      using "11.IH"(1) [of] None by simp
    from child_result [OF "11.prems"(1,2) this] obtain F N where
      first: "processNode (Some cur) i n None render partial =
                Some (F, N, collected partial n, errOf None partial n)"
      and cur': "(case F of Some cur1 \<Rightarrow> cur1 | None \<Rightarrow> cur[nat i := N]) =
                   cur[nat i := rewritten render partial n]"
      by blast
    let ?cur' = "cur[nat i := rewritten render partial n]"
    let ?acc' = "appendResult acc (collected partial n) (errOf None partial n)"
    from first None have first': "processNode (Some cur) i n (snd acc) render partial =
        Some (F, N, collected partial n, errOf None partial n)"
      by simp
    from "11.prems"(1) dr have d': "drop (nat (i + 1)) ?cur' = ns"
      by (simp add: nat_succ)
    have rest: "processNodes ?cur' (i + 1) ns ?acc' render partial =
        Some (take (nat (i + 1)) ?cur' @
                (if snd ?acc' = None then rewrittenList render partial ns else ns),
              fst ?acc' @ (if snd ?acc' = None then collectedList partial ns else []),
              errOf (snd ?acc') partial (ListNode (Some ns)))"
      using "11.IH"(2) [OF first' refl refl refl i1] d' cur' by simp
    have step: "processNodes cur i (n # ns) acc render partial =
        processNodes ?cur' (i + 1) ns ?acc' render partial"
      using first' cur' by simp
    from hd "11.prems"(1) have tk': "take (nat (i + 1)) ?cur' =
        take (nat i) cur @ [rewritten render partial n]"
      by (simp add: nat_succ take_Suc_conv_app_nth)
    show ?thesis
      unfolding step rest tk'
      using None
      by (cases "firstBad partial n")
         (auto simp: appendResult_def errOf_def collectedList_def collected_names)
  qed
qed

lemma processTree_refines:
  "processTree t raw render partial =
     Some (t\<lparr>Root := Nodes (rewritten render partial (ListNode (Root t)))\<rparr>,
           processTreeResult (Name t) raw (collected partial (ListNode (Root t)))
             (errOf None partial (ListNode (Root t))))"
  using processNode_refines(1) [of None "ListNode (Root t)" None 0 render partial]
  by (simp add: processTree_def del: processNode.simps rewritten.simps collected.simps)

lemma processTree_spec:
  "\<exists>t' ts.
     processTree t raw render partial =
       Some (t', processTreeResult (Name t) raw ts (errOf None partial (ListNode (Root t))))
     \<and> (firstBad partial (ListNode (Root t)) = None \<longrightarrow> ts = names (ListNode (Root t)))"
proof -
  have 1: "processTree t raw render partial =
     Some (t\<lparr>Root := Nodes (rewritten render partial (ListNode (Root t)))\<rparr>,
           processTreeResult (Name t) raw (collected partial (ListNode (Root t)))
             (errOf None partial (ListNode (Root t))))"
    by (rule processTree_refines)
  have 2: "firstBad partial (ListNode (Root t)) = None \<longrightarrow>
      collected partial (ListNode (Root t)) = names (ListNode (Root t))"
    using collected_names [of partial "ListNode (Root t)"] by blast
  show ?thesis
    apply (rule exI [where x = "t\<lparr>Root := Nodes (rewritten render partial (ListNode (Root t)))\<rparr>"])
    apply (rule exI [where x = "collected partial (ListNode (Root t))"])
    apply (rule conjI [OF 1 2])
    done
qed

lemma processActionNode_frame:
  "processActionNode (Some l) index n render partial = Some (parent', n', err) \<Longrightarrow>
     \<exists>l'. parent' = Some l' \<and> length l' = length l
        \<and> take (nat index) l' = take (nat index) l
        \<and> drop (Suc (nat index)) l' = drop (Suc (nat index)) l"
  by (auto simp: processActionNode_def replaceNode_def Let_def
           split: node.splits list.splits if_splits prod.splits)

lemma plain_firstBad: "plain n \<Longrightarrow> firstBad partial n = None"
proof (induction partial n rule: firstBad.induct)
  case (1 partial p line pp)
  then show ?case by (auto split: list.splits prod.splits)
next
  case (2 partial lst)
  then show ?case
    by (cases lst) (auto simp: firstDefined_None list_all_iff)
next
  case (3 partial p line pp lst els)
  then show ?case
    by (cases lst; cases els) (auto simp: firstDefined_None list_all_iff)
next
  case (4 partial p line pp lst els)
  then show ?case
    by (cases lst; cases els) (auto simp: firstDefined_None list_all_iff)
next
  case (5 partial p line pp lst els)
  then show ?case
    by (cases lst; cases els) (auto simp: firstDefined_None list_all_iff)
qed simp_all

lemma plain_rewritten:
  "plain n \<Longrightarrow> rewritten render partial n = n"
  "list_all plain ns \<Longrightarrow> rewrittenList render partial ns = ns"
proof (induction render partial n and render partial ns rule: rewritten_rewrittenList.induct)
  case (1 render partial p line pp)
  then show ?case by (auto split: list.splits prod.splits)
next
  case (2 render partial lst)
  then show ?case by (cases lst) auto
next
  case (3 render partial p line pp lst els)
  then show ?case by (cases lst; cases els) auto
next
  case (4 render partial p line pp lst els)
  then show ?case by (cases lst; cases els) auto
next
  case (5 render partial p line pp lst els)
  then show ?case by (cases lst; cases els) auto
qed auto

lemma concat_names_list:
  "(\<And>x. x \<in> set ns \<Longrightarrow> names x = concat (map names (actions x))) \<Longrightarrow>
     concat (map names ns) = concat (map names (concat (map actions ns)))"
  by (induction ns) auto

lemma names_opt:
  assumes "\<And>ns x. lst = Some ns \<Longrightarrow> x \<in> set ns \<Longrightarrow> names x = concat (map names (actions x))"
  shows "(case lst of None \<Rightarrow> [] | Some ns \<Rightarrow> concat (map names ns)) =
         concat (map names (case lst of None \<Rightarrow> [] | Some ns \<Rightarrow> concat (map actions ns)))"
proof (cases lst)
  case None
  then show ?thesis by simp
next
  case (Some ns)
  with assms have "\<And>x. x \<in> set ns \<Longrightarrow> names x = concat (map names (actions x))"
    by simp
  then have "concat (map names ns) = concat (map names (concat (map actions ns)))"
    by (rule concat_names_list)
  with Some show ?thesis by simp
qed

lemma names_actions: "names n = concat (map names (actions n))"
proof (induction n rule: names.induct)
  case (1 p line pp)
  then show ?case by (simp split: list.splits prod.splits)
next
  case (2 lst)
  show ?case by (simp add: names_opt [OF "2.IH"])
next
  case (3 p line pp lst els)
  show ?case by (simp add: names_opt [OF "3.IH"(1)] names_opt [OF "3.IH"(2)])
next
  case (4 p line pp lst els)
  show ?case by (simp add: names_opt [OF "4.IH"(1)] names_opt [OF "4.IH"(2)])
next
  case (5 p line pp lst els)
  show ?case by (simp add: names_opt [OF "5.IH"(1)] names_opt [OF "5.IH"(2)])
qed simp_all

lemma firstDefined_Cons:
  "firstDefined (x # xs) = (case x of Some v \<Rightarrow> Some v | None \<Rightarrow> firstDefined xs)"
  by (cases x) simp_all

lemma firstDefined_append:
  "firstDefined (xs @ ys) = (case firstDefined xs of Some x \<Rightarrow> Some x | None \<Rightarrow> firstDefined ys)"
  by (induction xs rule: firstDefined.induct) auto

lemma firstBad_list:
  "(\<And>x. x \<in> set ns \<Longrightarrow> firstBad partial x = firstDefined (map (firstBad partial) (actions x))) \<Longrightarrow>
     firstDefined (map (firstBad partial) ns) =
       firstDefined (map (firstBad partial) (concat (map actions ns)))"
proof (induction ns)
  case Nil
  then show ?case by simp
next
  case (Cons n ns)
  then show ?case
    by (cases "firstBad partial n") (auto simp: firstDefined_append)
qed

lemma firstBad_opt:
  assumes "\<And>ns x. lst = Some ns \<Longrightarrow> x \<in> set ns \<Longrightarrow>
             firstBad partial x = firstDefined (map (firstBad partial) (actions x))"
  shows "(case lst of None \<Rightarrow> None | Some ns \<Rightarrow> firstDefined (map (firstBad partial) ns)) =
         firstDefined (map (firstBad partial)
           (case lst of None \<Rightarrow> [] | Some ns \<Rightarrow> concat (map actions ns)))"
proof (cases lst)
  case None
  then show ?thesis by simp
next
  case (Some ns)
  with assms have
    "\<And>x. x \<in> set ns \<Longrightarrow> firstBad partial x = firstDefined (map (firstBad partial) (actions x))"
    by simp
  then have "firstDefined (map (firstBad partial) ns) =
      firstDefined (map (firstBad partial) (concat (map actions ns)))"
    by (rule firstBad_list)
  with Some show ?thesis by simp
qed

lemma firstBad_actions:
  "firstBad partial n = firstDefined (map (firstBad partial) (actions n))"
proof (induction partial n rule: firstBad.induct)
  case (1 partial p line pp)
  then show ?case by (simp split: list.splits prod.splits)
next
  case (2 partial lst)
  show ?case by (simp add: firstBad_opt [OF "2.IH"])
next
  case (3 partial p line pp lst els)
  show ?case
    by (simp add: firstBad_opt [OF "3.IH"(1)] firstBad_opt [OF "3.IH"(2)] firstDefined_append
          firstDefined_Cons split: option.splits)
next
  case (4 partial p line pp lst els)
  show ?case
    by (simp add: firstBad_opt [OF "4.IH"(1)] firstBad_opt [OF "4.IH"(2)] firstDefined_append
          firstDefined_Cons split: option.splits)
next
  case (5 partial p line pp lst els)
  show ?case
    by (simp add: firstBad_opt [OF "5.IH"(1)] firstBad_opt [OF "5.IH"(2)] firstDefined_append
          firstDefined_Cons split: option.splits)
qed simp_all

lemma firstDefined_member:
  "x \<in> set xs \<Longrightarrow> x \<noteq> None \<Longrightarrow> firstDefined xs \<noteq> None"
  by (induction xs rule: firstDefined.induct) auto

lemma rewrittenList_upto:
  "\<forall>x\<in>set xs. firstBad partial x = None \<Longrightarrow> firstBad partial b = Some q \<Longrightarrow>
     rewrittenList render partial (xs @ b # ys) =
       map (rewritten render partial) xs @ rewritten render partial b # ys"
  by (induction xs) (simp_all del: rewritten.simps firstBad.simps)

lemma collectedList_upto:
  "\<forall>x\<in>set xs. firstBad partial x = None \<Longrightarrow> firstBad partial b = Some q \<Longrightarrow>
     collectedList partial (xs @ b # ys) = concat (map names xs)"
  by (simp add: collectedList_def takeWhile_tail del: firstBad.simps names.simps)

lemma firstBad_upto:
  "\<forall>x\<in>set xs. firstBad partial x = None \<Longrightarrow> firstBad partial b = Some q \<Longrightarrow>
     firstBad partial (ListNode (Some (xs @ b # ys))) = Some q"
  by (induction xs) (simp_all del: firstBad.simps add: firstBad.simps(2))

lemma actions_opt_action:
  assumes "\<And>ns x. lst = Some ns \<Longrightarrow> x \<in> set ns \<Longrightarrow> \<forall>a\<in>set (actions x). \<exists>p l pp. a = ActionNode p l pp"
  shows "\<forall>a\<in>set (case lst of None \<Rightarrow> [] | Some ns \<Rightarrow> concat (map actions ns)).
           \<exists>p l pp. a = ActionNode p l pp"
  using assms by (cases lst) auto

lemma actions_action: "\<forall>a\<in>set (actions n). \<exists>p l pp. a = ActionNode p l pp"
proof (induction n rule: actions.induct)
  case (2 lst)
  show ?case using actions_opt_action [OF "2.IH"] by simp
next
  case (3 p line pp lst els)
  show ?case using actions_opt_action [OF "3.IH"(1)] actions_opt_action [OF "3.IH"(2)]
    by (simp add: ball_Un)
next
  case (4 p line pp lst els)
  show ?case using actions_opt_action [OF "4.IH"(1)] actions_opt_action [OF "4.IH"(2)]
    by (simp add: ball_Un)
next
  case (5 p line pp lst els)
  show ?case using actions_opt_action [OF "5.IH"(1)] actions_opt_action [OF "5.IH"(2)]
    by (simp add: ball_Un)
qed simp_all

lemma firstDefined_split:
  "firstDefined (map f xs) = Some v \<Longrightarrow>
     \<exists>pre a post. xs = pre @ a # post \<and> (\<forall>x\<in>set pre. f x = None) \<and> f a = Some v"
proof (induction xs)
  case Nil
  then show ?case by simp
next
  case (Cons x xs)
  show ?case
  proof (cases "f x")
    case None
    with Cons.prems have "firstDefined (map f xs) = Some v" by simp
    from Cons.IH [OF this] obtain pre a post where
      "xs = pre @ a # post" "\<forall>x\<in>set pre. f x = None" "f a = Some v" by blast
    with None have "x # xs = (x # pre) @ a # post \<and> (\<forall>y\<in>set (x # pre). f y = None) \<and> f a = Some v"
      by simp
    then show ?thesis by blast
  next
    case (Some w)
    with Cons.prems have "w = v" by simp
    with Some have "x # xs = [] @ x # xs \<and> (\<forall>y\<in>set []. f y = None) \<and> f x = Some v" by simp
    then show ?thesis by blast
  qed
qed

lemma firstDefined_first:
  "\<forall>x\<in>set pre. f x = None \<Longrightarrow> f a = Some v \<Longrightarrow> firstDefined (map f (pre @ a # post)) = Some v"
  by (induction pre) simp_all

lemma firstBad_action_pos: "firstBad partial (ActionNode p line pp) = Some v \<Longrightarrow> v = p"
  by (simp split: list.splits prod.splits if_splits)

section \<open>Auxiliary facts about positions\<close>

lemma runeWidth_bounds: "1 \<le> runeWidth (c # cs) \<and> runeWidth (c # cs) \<le> length (c # cs)"
  by (auto simp: Let_def split: list.splits)

lemma rune_newline:
  "(take (runeWidth (c # cs)) (c # cs) = [CHR 0x0A]) = (c = CHR 0x0A)"
proof
  assume "take (runeWidth (c # cs)) (c # cs) = [CHR 0x0A]"
  moreover from runeWidth_bounds [of c cs] obtain k where "runeWidth (c # cs) = Suc k"
    by (cases "runeWidth (c # cs)") auto
  ultimately show "c = CHR 0x0A" by simp
next
  assume "c = CHR 0x0A"
  then show "take (runeWidth (c # cs)) (c # cs) = [CHR 0x0A]" by simp
qed

lemma posLoop_scanned:
  "posLoop body i p lc =
     foldl (\<lambda>lc r. if r = [CHR 0x0A] then (fst lc + 1, 1) else (fst lc, snd lc + 1))
       lc (scanned (runes body) i p)"
proof (induction body i p lc rule: posLoop.induct)
  case (1 i p lc)
  then show ?case by simp
next
  case (2 c cs i p lc)
  show ?case
  proof (cases "i \<ge> p")
    case True
    then show ?thesis by simp
  next
    case False
    from runeWidth_bounds [of c cs]
    have len: "length (take (runeWidth (c # cs)) (c # cs)) = runeWidth (c # cs)"
      by simp
    show ?thesis
      using False "2.IH" [OF False] rune_newline [of c cs] len
      by (simp del: runeWidth.simps)
  qed
qed

lemma pos_posSpec: "pos raw p = posSpec raw p"
  by (simp add: pos_def posSpec_def posLoop_scanned)

lemma posSpec_ge1: "1 \<le> fst (posSpec raw p) \<and> 1 \<le> snd (posSpec raw p)"
proof -
  have "1 \<le> fst lc \<and> 1 \<le> snd lc \<Longrightarrow>
        1 \<le> fst (foldl (\<lambda>lc r. if r = [CHR 0x0A] then (fst lc + 1, 1) else (fst lc, snd lc + 1)) lc rs)
        \<and> 1 \<le> snd (foldl (\<lambda>lc r. if r = [CHR 0x0A] then (fst lc + 1, 1) else (fst lc, snd lc + 1)) lc rs)"
    for lc :: "int \<times> int" and rs :: "string list"
    by (induction rs arbitrary: lc) auto
  from this [of "(1, 1)"] show ?thesis by (simp add: posSpec_def)
qed

section \<open>The rewriting of one action\<close>

text \<open>
  C5. A \<open>render\<close> action visited in render mode, with its parent list and a valid index:
  the slot of the parent gets a template node with the position and line of the action,
  named by the string argument, or \<open>body\<close> when that argument is empty, missing or not a
  string; its pipeline has the single argument dot, whatever follows the name (a field
  included). The partial mode plays no part.
\<close>

theorem render_rewrites:
  assumes "Cmds pp = cmd # cmds"
      and "Args cmd = IdentifierNode renderFunc # rest"
      and "0 \<le> index" and "index < int (length nodes)"
  shows "processNode (Some nodes) index (ActionNode p line pp) None True partial =
           Some (Some (nodes[nat index :=
                    TemplateNode p line
                      (case rest of StringNode s # _ \<Rightarrow> if s = [] then ''body'' else s | _ \<Rightarrow> ''body'')
                      (Some (pp\<lparr>Cmds := [cmd\<lparr>Args := [DotNode]\<rparr>]\<rparr>))]),
                 ActionNode p line (pp\<lparr>Cmds := [cmd\<lparr>Args := [DotNode]\<rparr>]\<rparr>),
                 (case rest of StringNode s # _ \<Rightarrow> if s = [] then [] else [s] | _ \<Rightarrow> []),
                 None)"
  using assms
  by (simp add: processActionNode_def getActionArgs_def replaceNode_def renderFunc_def
        partialFunc_def Let_def split: list.splits arg.splits)

theorem render_rewrites_witness:
  "processNode
     (Some [TextNode ''x'',
            action 9 [IdentifierNode ''render'', StringNode ''foot'', FieldNode [''Foo'']]]) 1
     (action 9 [IdentifierNode ''render'', StringNode ''foot'', FieldNode [''Foo'']])
     None True False =
   Some (Some [TextNode ''x'', invocation 9 ''foot'' DotNode],
         action 9 [DotNode], [''foot''], None)"
  using render_rewrites
    [of "\<lparr>IsAssign = False, Decl = [],
          Cmds = [\<lparr>Args = [IdentifierNode ''render'', StringNode ''foot'', FieldNode [''Foo'']]\<rparr>]\<rparr>"
        "\<lparr>Args = [IdentifierNode ''render'', StringNode ''foot'', FieldNode [''Foo'']]\<rparr>"
        "[]" "[StringNode ''foot'', FieldNode [''Foo'']]" 1
        "[TextNode ''x'',
          action 9 [IdentifierNode ''render'', StringNode ''foot'', FieldNode [''Foo'']]]"
        9 1 False]
  by (simp add: action_def invocation_def renderFunc_def)

text \<open>
  C6. A \<open>partial\<close> action with a non-empty string name, visited in partial mode with its
  parent list and a valid index: the slot of the parent gets a template node of that
  name, whose pipeline has one argument, the field when the third argument is a field
  access and dot otherwise. The render mode plays no part.
\<close>

theorem partial_rewrites:
  assumes "Cmds pp = cmd # cmds"
      and "Args cmd = IdentifierNode partialFunc # StringNode name # rest"
      and "name \<noteq> []"
      and "0 \<le> index" and "index < int (length nodes)"
  shows "processNode (Some nodes) index (ActionNode p line pp) None render True =
           Some (Some (nodes[nat index :=
                    TemplateNode p line name
                      (Some (pp\<lparr>Cmds := [cmd\<lparr>Args :=
                          [case rest of FieldNode f # _ \<Rightarrow> FieldNode f | _ \<Rightarrow> DotNode]\<rparr>]\<rparr>))]),
                 ActionNode p line (pp\<lparr>Cmds := [cmd\<lparr>Args :=
                          [case rest of FieldNode f # _ \<Rightarrow> FieldNode f | _ \<Rightarrow> DotNode]\<rparr>]\<rparr>),
                 [name], None)"
  using assms
  by (simp add: processActionNode_def getActionArgs_def replaceNode_def renderFunc_def
        partialFunc_def Let_def split: list.splits arg.splits)

theorem partial_rewrites_witness:
  "processNode
     (Some [action 2 [IdentifierNode ''partial'', StringNode ''p.html'', FieldNode [''Field'']]]) 0
     (action 2 [IdentifierNode ''partial'', StringNode ''p.html'', FieldNode [''Field'']])
     None False True =
   Some (Some [invocation 2 ''p.html'' (FieldNode [''Field''])],
         action 2 [FieldNode [''Field'']], [''p.html''], None)"
  using partial_rewrites
    [of "\<lparr>IsAssign = False, Decl = [],
          Cmds = [\<lparr>Args = [IdentifierNode ''partial'', StringNode ''p.html'',
                           FieldNode [''Field'']]\<rparr>]\<rparr>"
        "\<lparr>Args = [IdentifierNode ''partial'', StringNode ''p.html'', FieldNode [''Field'']]\<rparr>"
        "[]" "''p.html''" "[FieldNode [''Field'']]" 0
        "[action 2 [IdentifierNode ''partial'', StringNode ''p.html'', FieldNode [''Field'']]]"
        2 1 False]
  by (simp add: action_def invocation_def partialFunc_def)

text \<open>
  C8. An action whose function is neither \<open>render\<close> nor \<open>partial\<close>, a \<open>render\<close> action
  when the render mode is off, and a \<open>partial\<close> action when the partial mode is off,
  visited with a parent list: the parent and the action are returned as they were, with
  no error; only the literal name, if any, is collected. The render case holds for
  either value of the partial mode, and the partial case for either value of the render
  mode.
\<close>

theorem unmatched_action_untouched:
  assumes "Cmds pp = cmd # cmds"
      and "getActionArgs cmd = (fn, name, field)"
      and "(fn \<noteq> renderFunc \<and> fn \<noteq> partialFunc) \<or> (fn = renderFunc \<and> \<not> render)
             \<or> (fn = partialFunc \<and> \<not> partial)"
  shows "processNode (Some nodes) index (ActionNode p line pp) None render partial =
           Some (Some nodes, ActionNode p line pp, (if name \<noteq> [] then [name] else []), None)"
  using assms
  by (auto simp: processActionNode_def renderFunc_def partialFunc_def)

theorem unmatched_action_untouched_witness:
  "processNode (Some [action 2 [IdentifierNode ''render'', StringNode ''foot'']]) 0
     (action 2 [IdentifierNode ''render'', StringNode ''foot'']) None False True =
   Some (Some [action 2 [IdentifierNode ''render'', StringNode ''foot'']],
         action 2 [IdentifierNode ''render'', StringNode ''foot''], [''foot''], None)"
  using unmatched_action_untouched
    [of "\<lparr>IsAssign = False, Decl = [],
          Cmds = [\<lparr>Args = [IdentifierNode ''render'', StringNode ''foot'']\<rparr>]\<rparr>"
        "\<lparr>Args = [IdentifierNode ''render'', StringNode ''foot'']\<rparr>"
        "[]" "''render''" "''foot''" None False True
        "[action 2 [IdentifierNode ''render'', StringNode ''foot'']]" 0 2 1]
  by (simp add: action_def getActionArgs_def renderFunc_def partialFunc_def)

text \<open>
  C10. When an action is rewritten (a \<open>partial\<close> with a name in partial mode, a \<open>render\<close> in
  render mode), the pipeline of the new template node has exactly one command, the first
  command of the action with a single argument (dot or the field); the commands \<open>cmds\<close>
  that followed it in the action are gone. The declarations of the pipeline are kept.
\<close>

theorem pipeline_truncated:
  assumes "Cmds pp = cmd # cmds"
      and "getActionArgs cmd = (fn, name, field)"
      and "(fn = partialFunc \<and> partial \<and> name \<noteq> []) \<or> (fn = renderFunc \<and> render)"
      and "0 \<le> index" and "index < int (length nodes)"
  shows "\<exists>nodes' tname a pp'.
           processActionNode (Some nodes) index (ActionNode p line pp) render partial =
             Some (Some nodes', ActionNode p line pp', None)
           \<and> nodes' ! nat index = TemplateNode p line tname (Some pp')
           \<and> Cmds pp' = [cmd\<lparr>Args := [a]\<rparr>]
           \<and> (a = DotNode \<or> field = Some a)
           \<and> IsAssign pp' = IsAssign pp \<and> Decl pp' = Decl pp"
  using assms
  by (auto simp: processActionNode_def replaceNode_def renderFunc_def partialFunc_def Let_def
           split: option.splits)

theorem pipeline_truncated_witness:
  "\<exists>nodes' tname a pp'.
     processActionNode
       (Some [ActionNode 2 1 \<lparr>IsAssign = False, Decl = [],
                Cmds = [\<lparr>Args = [IdentifierNode ''render'']\<rparr>,
                        \<lparr>Args = [IdentifierNode ''upper'']\<rparr>]\<rparr>]) 0
       (ActionNode 2 1 \<lparr>IsAssign = False, Decl = [],
                Cmds = [\<lparr>Args = [IdentifierNode ''render'']\<rparr>,
                        \<lparr>Args = [IdentifierNode ''upper'']\<rparr>]\<rparr>) True False =
       Some (Some nodes', ActionNode 2 1 pp', None)
     \<and> nodes' ! nat 0 = TemplateNode 2 1 tname (Some pp')
     \<and> Cmds pp' = [\<lparr>Args = [a]\<rparr>]"
  using pipeline_truncated
    [of "\<lparr>IsAssign = False, Decl = [],
          Cmds = [\<lparr>Args = [IdentifierNode ''render'']\<rparr>, \<lparr>Args = [IdentifierNode ''upper'']\<rparr>]\<rparr>"
        "\<lparr>Args = [IdentifierNode ''render'']\<rparr>" "[\<lparr>Args = [IdentifierNode ''upper'']\<rparr>]"
        "''render''" "[]" None False True 0
        "[ActionNode 2 1 \<lparr>IsAssign = False, Decl = [],
            Cmds = [\<lparr>Args = [IdentifierNode ''render'']\<rparr>,
                    \<lparr>Args = [IdentifierNode ''upper'']\<rparr>]\<rparr>]" 2 1]
  by (simp add: getActionArgs_def renderFunc_def partialFunc_def) blast

section \<open>The example of the specification\<close>

text \<open>
  C2, as the code behaves: with both modes on, all three actions of the example are
  rewritten, to template nodes named \<open>a.html\<close>, \<open>body\<close> and \<open>foot\<close>, each on dot, and the
  names returned are \<open>a.html\<close> and \<open>foot\<close>.
\<close>

theorem example_rewrites_three:
  "processTree exampleTree exampleRaw True True =
     Some (exampleTree\<lparr>Root := Some [invocation 2 ''a.html'' DotNode,
                                     invocation 22 ''body'' DotNode,
                                     invocation 32 ''foot'' DotNode]\<rparr>,
           [''a.html'', ''foot''], None)"
  by code_simp

text \<open>C2, as stated, fails: the names returned for the example are not just \<open>a.html\<close>.\<close>

theorem example_names_counterexample:
  "fst (snd (the (processTree exampleTree exampleRaw True True))) \<noteq> [''a.html'']"
  by code_simp

section \<open>The whole pass\<close>

text \<open>
  C3, as the code behaves. The pass always returns, and when it returns no error the
  names are, in document order, the literal names of the action nodes of the tree (each
  non-empty string that is the second argument of the first command of an action,
  whatever the function). A template node met in the tree is no action and contributes
  no name.
\<close>

theorem names_collected:
  "\<exists>t' ts err.
     processTree t raw render partial = Some (t', ts, err)
     \<and> (err = None \<longrightarrow> ts = concat (map names (actions (ListNode (Root t)))))"
proof -
  from processTree_spec [of t raw render partial] obtain t' ts where
    r: "processTree t raw render partial =
          Some (t', processTreeResult (Name t) raw ts (errOf None partial (ListNode (Root t))))"
    and n: "firstBad partial (ListNode (Root t)) = None \<longrightarrow> ts = names (ListNode (Root t))"
    by auto
  show ?thesis
  proof (cases "firstBad partial (ListNode (Root t))")
    case None
    with r n names_actions [of "ListNode (Root t)"] show ?thesis
      by (simp add: errOf_def processTreeResult_def)
  next
    case (Some q)
    with r show ?thesis
      by (simp add: errOf_def processTreeResult_def split: prod.splits)
  qed
qed

theorem names_collected_witness:
  "\<exists>t' ts err.
     processTree exampleTree exampleRaw True True = Some (t', ts, err)
     \<and> err = None \<and> ts = [''a.html'', ''foot'']"
proof -
  have ev: "processTree exampleTree exampleRaw True True =
     Some (exampleTree\<lparr>Root := Some [invocation 2 ''a.html'' DotNode,
                                     invocation 22 ''body'' DotNode,
                                     invocation 32 ''foot'' DotNode]\<rparr>,
           [''a.html'', ''foot''], None)"
    by code_simp
  have nm: "concat (map names (actions (ListNode (Root exampleTree)))) = [''a.html'', ''foot'']"
    by (simp add: exampleTree_def action_def getActionArgs_def)
  from names_collected [of exampleTree exampleRaw True True] ev nm show ?thesis
    by simp
qed

text \<open>
  C3, as stated, fails: for the tree of \<open>{{template "head" .}}\<close> the name \<open>head\<close> of the
  template node is not among the names returned.
\<close>

theorem template_node_counterexample:
  "''head'' \<notin> set (fst (snd (the (processTree templateTree ''{{template \"head\" .}}'' True True))))"
  by code_simp

text \<open>
  C9. For a tree with no \<open>render\<close> and no \<open>partial\<close> action the pass returns the tree
  as it was, with the literal names of its actions in document order and no error.
  Whenever \<open>processActionNode\<close> returns an error, the parent and the action are as
  they were; and whatever it returns, the parent list keeps its length and every slot
  but the one at the index.
\<close>

theorem plain_tree_unchanged:
  "(plain (ListNode (Root t)) \<longrightarrow>
      processTree t raw render partial =
        Some (t, concat (map names (actions (ListNode (Root t)))), None))
   \<and> (processActionNode parent index n render partial = Some (parent', n', Some e) \<longrightarrow>
        parent' = parent \<and> n' = n)
   \<and> (processActionNode (Some l) index n render partial = Some (parent'', n'', err) \<longrightarrow>
        (\<exists>l'. parent'' = Some l' \<and> length l' = length l
           \<and> take (nat index) l' = take (nat index) l
           \<and> drop (Suc (nat index)) l' = drop (Suc (nat index)) l))"
proof (intro conjI impI)
  assume "plain (ListNode (Root t))"
  then have "rewritten render partial (ListNode (Root t)) = ListNode (Root t)"
    and "firstBad partial (ListNode (Root t)) = None"
    by (rule plain_rewritten(1), rule plain_firstBad)
  then show "processTree t raw render partial =
      Some (t, concat (map names (actions (ListNode (Root t)))), None)"
    using names_actions [of "ListNode (Root t)"] collected_names [of partial "ListNode (Root t)"]
    by (simp add: processTree_refines processTreeResult_def errOf_def
          del: rewritten.simps collected.simps names.simps firstBad.simps actions.simps)
next
  assume "processActionNode parent index n render partial = Some (parent', n', Some e)"
  then show "parent' = parent"
    by (auto simp: processActionNode_def replaceNode_def Let_def
             split: option.splits node.splits list.splits if_splits prod.splits)
next
  assume "processActionNode parent index n render partial = Some (parent', n', Some e)"
  then show "n' = n"
    by (auto simp: processActionNode_def replaceNode_def Let_def
             split: option.splits node.splits list.splits if_splits prod.splits)
next
  assume "processActionNode (Some l) index n render partial = Some (parent'', n'', err)"
  then show "\<exists>l'. parent'' = Some l' \<and> length l' = length l
           \<and> take (nat index) l' = take (nat index) l
           \<and> drop (Suc (nat index)) l' = drop (Suc (nat index)) l"
    by (rule processActionNode_frame)
qed

theorem plain_tree_unchanged_witness:
  "plain (ListNode (Root plainTree))
   \<and> processTree plainTree ''hi {{printf \"x\"}}'' True True = Some (plainTree, [''x''], None)
   \<and> processActionNode (Some [action 2 [IdentifierNode ''partial'']]) 0
         (action 2 [IdentifierNode ''partial'']) True True =
       Some (Some [action 2 [IdentifierNode ''partial'']], action 2 [IdentifierNode ''partial''],
             Some (posErr 2 ''partial: path to partial file is not specified''))"
proof -
  have p: "plain (ListNode (Root plainTree))"
    by (simp add: plainTree_def action_def getActionArgs_def renderFunc_def partialFunc_def)
  have nm: "concat (map names (actions (ListNode (Root plainTree)))) = [''x'']"
    by (simp add: plainTree_def action_def getActionArgs_def)
  have a: "processActionNode (Some [action 2 [IdentifierNode ''partial'']]) 0
         (action 2 [IdentifierNode ''partial'']) True True =
       Some (Some [action 2 [IdentifierNode ''partial'']], action 2 [IdentifierNode ''partial''],
             Some (posErr 2 ''partial: path to partial file is not specified''))"
    by (simp add: processActionNode_def action_def getActionArgs_def partialFunc_def)
  from plain_tree_unchanged
    [of plainTree "''hi {{printf \"x\"}}''" True True
        "Some [action 2 [IdentifierNode ''partial'']]" 0 "action 2 [IdentifierNode ''partial'']"
        "Some [action 2 [IdentifierNode ''partial'']]" "action 2 [IdentifierNode ''partial'']"
        "posErr 2 ''partial: path to partial file is not specified''"
        "[action 2 [IdentifierNode ''partial'']]"
        "Some [action 2 [IdentifierNode ''partial'']]" "action 2 [IdentifierNode ''partial'']"
        "Some (posErr 2 ''partial: path to partial file is not specified'')"]
    p nm a
  show ?thesis by simp
qed

section \<open>Failing passes\<close>


text \<open>
  C4, as the code behaves. When the tree holds an action that invokes \<open>partial\<close> with
  an empty or missing name and the partial mode is on, \<open>processActionNode\<close> on that
  action returns the positioned error with the message and the offset of the action,
  and the pass fails. Its error wraps the positioned error of the first such action in
  document order: no action before it is such an action, and it is the action of the
  hypothesis when no such action precedes that one. The text of the error is
  \<open>name:line:column: message\<close>, where line and column are found by scanning the
  characters of the source that start before the offset of that first action, from 1
  and 1, a newline incrementing the line and resetting the column.
\<close>

theorem partial_without_name_fails:
  assumes "ActionNode q line pp \<in> set (actions (ListNode (Root t)))"
      and "Cmds pp = cmd # cmds"
      and "getActionArgs cmd = (partialFunc, [], field)"
  shows "\<exists>t' ts q' pre line' pp' post.
           processTree t raw render True =
             Some (t', ts,
               Some (wrapError
                 (Name t @ '':'' @ itoa (fst (posSpec raw q')) @ '':'' @ itoa (snd (posSpec raw q'))
                    @ '': partial: path to partial file is not specified'')
                 (posErr q' ''partial: path to partial file is not specified'')))
           \<and> actions (ListNode (Root t)) = pre @ ActionNode q' line' pp' # post
           \<and> (\<forall>a\<in>set pre. firstBad True a = None)
           \<and> firstBad True (ActionNode q' line' pp') = Some q'
           \<and> firstBad True (ListNode (Root t)) = Some q'
           \<and> (\<forall>pre0 post0. actions (ListNode (Root t)) = pre0 @ ActionNode q line pp # post0
                  \<and> (\<forall>a\<in>set pre0. firstBad True a = None) \<longrightarrow> q' = q)
           \<and> 1 \<le> fst (posSpec raw q') \<and> 1 \<le> snd (posSpec raw q')
           \<and> processActionNode (Some nodes) index (ActionNode q line pp) render True =
               Some (Some nodes, ActionNode q line pp,
                     Some (posErr q ''partial: path to partial file is not specified''))"
proof -
  let ?as = "actions (ListNode (Root t))"
  from assms(2,3) have bad: "firstBad True (ActionNode q line pp) = Some q"
    by simp
  from assms(1) have
    "firstBad True (ActionNode q line pp) \<in> set (map (firstBad True) ?as)"
    unfolding set_map by (rule imageI)
  with bad have "firstDefined (map (firstBad True) ?as) \<noteq> None"
    by (intro firstDefined_member) auto
  then obtain q' where fd: "firstDefined (map (firstBad True) ?as) = Some q'"
    by auto
  then have q': "firstBad True (ListNode (Root t)) = Some q'"
    using firstBad_actions [of True "ListNode (Root t)"] by simp
  from firstDefined_split [OF fd] obtain pre a post where
    dec: "?as = pre @ a # post" and pre: "\<forall>x\<in>set pre. firstBad True x = None"
    and a: "firstBad True a = Some q'" by blast
  from dec have "a \<in> set ?as" by simp
  with actions_action [of "ListNode (Root t)"] obtain p' line' pp' where
    ashape: "a = ActionNode p' line' pp'" by blast
  with a firstBad_action_pos have "q' = p'" by blast
  with ashape have ashape': "a = ActionNode q' line' pp'" by simp
  have uniq: "\<forall>pre0 post0. ?as = pre0 @ ActionNode q line pp # post0
                  \<and> (\<forall>a\<in>set pre0. firstBad True a = None) \<longrightarrow> q' = q"
  proof (intro allI impI)
    fix pre0 post0
    assume h: "?as = pre0 @ ActionNode q line pp # post0
                  \<and> (\<forall>a\<in>set pre0. firstBad True a = None)"
    then have "firstDefined (map (firstBad True) (pre0 @ ActionNode q line pp # post0)) = Some q"
      using bad by (intro firstDefined_first) auto
    with h fd show "q' = q" by simp
  qed
  from processTree_spec [of t raw render True] obtain t' ts where
    "processTree t raw render True =
       Some (t', processTreeResult (Name t) raw ts (errOf None True (ListNode (Root t))))"
    by auto
  with q' have res: "processTree t raw render True =
      Some (t', ts,
        Some (wrapError
          (Name t @ '':'' @ itoa (fst (posSpec raw q')) @ '':'' @ itoa (snd (posSpec raw q'))
             @ '': partial: path to partial file is not specified'')
          (posErr q' ''partial: path to partial file is not specified'')))"
    by (simp add: errOf_def processTreeResult_def pos_posSpec split: prod.splits)
  from assms(2,3) have act:
    "processActionNode (Some nodes) index (ActionNode q line pp) render True =
       Some (Some nodes, ActionNode q line pp,
             Some (posErr q ''partial: path to partial file is not specified''))"
    by (simp add: processActionNode_def)
  from a ashape' have a': "firstBad True (ActionNode q' line' pp') = Some q'" by simp
  from dec ashape' have dec': "?as = pre @ ActionNode q' line' pp' # post" by simp
  from posSpec_ge1 [of raw q'] have ge: "1 \<le> fst (posSpec raw q')" "1 \<le> snd (posSpec raw q')"
    by simp_all
  show ?thesis
    apply (rule exI [where x = t'])
    apply (rule exI [where x = ts])
    apply (rule exI [where x = q'])
    apply (rule exI [where x = pre])
    apply (rule exI [where x = line'])
    apply (rule exI [where x = pp'])
    apply (rule exI [where x = post])
    apply (intro conjI)
            apply (rule res)
           apply (rule dec')
          apply (rule pre)
         apply (rule a')
        apply (rule q')
       apply (rule uniq)
      apply (rule ge(1))
     apply (rule ge(2))
    apply (rule act)
    done
qed

theorem partial_without_name_fails_witness:
  "\<exists>t' ts.
     processTree namelessTree namelessRaw False True =
       Some (t', ts,
         Some (wrapError ''page.html:2:12: partial: path to partial file is not specified''
                 (posErr 14 ''partial: path to partial file is not specified'')))"
proof -
  let ?pp = "\<lparr>IsAssign = False, Decl = [], Cmds = [\<lparr>Args = [IdentifierNode ''partial'']\<rparr>]\<rparr>"
  let ?rest = "[ActionNode 32 2 \<lparr>IsAssign = False, Decl = [],
                  Cmds = [\<lparr>Args = [IdentifierNode ''render'']\<rparr>]\<rparr>]"
  have as: "actions (ListNode (Root namelessTree)) = [] @ ActionNode 14 2 ?pp # ?rest"
    by (simp add: namelessTree_def)
  have h1: "ActionNode 14 2 ?pp \<in> set (actions (ListNode (Root namelessTree)))"
    unfolding as by simp
  have h2: "Cmds ?pp = \<lparr>Args = [IdentifierNode ''partial'']\<rparr> # []"
    by simp
  have h3: "getActionArgs \<lparr>Args = [IdentifierNode ''partial'']\<rparr> = (partialFunc, [], None)"
    by (simp add: getActionArgs_def partialFunc_def)
  have ps: "posSpec namelessRaw 14 = (2, 12)"
    by code_simp
  have it: "itoa 2 = ''2''" "itoa 12 = ''12''"
    by code_simp+
  have nt: "Name namelessTree = ''page.html''"
    by (simp add: namelessTree_def)
  from partial_without_name_fails [OF h1 h2 h3, of namelessRaw False "[]" 0]
  obtain t' ts q' where
    res: "processTree namelessTree namelessRaw False True =
       Some (t', ts,
         Some (wrapError
           (Name namelessTree @ '':'' @ itoa (fst (posSpec namelessRaw q')) @ '':''
              @ itoa (snd (posSpec namelessRaw q'))
              @ '': partial: path to partial file is not specified'')
           (posErr q' ''partial: path to partial file is not specified'')))"
    and first: "\<forall>pre0 post0. actions (ListNode (Root namelessTree)) = pre0 @ ActionNode 14 2 ?pp # post0
                  \<and> (\<forall>a\<in>set pre0. firstBad True a = None) \<longrightarrow> q' = 14"
    by blast
  from first as have "q' = 14"
    by (metis empty_iff list.set(1))
  with res show ?thesis
    by (simp add: ps it nt)
qed

text \<open>
  C4, as stated, fails for a \<open>partial\<close> without a name that follows another one: in
  \<open>twoNamelessTree\<close> the second such action is at offset 14, line 2 and column 3 of
  the source, and the error of the pass gives line 1 and column 3, the position of the
  first.
\<close>

theorem second_nameless_counterexample:
  "ActionNode 14 2 \<lparr>IsAssign = False, Decl = [], Cmds = [\<lparr>Args = [IdentifierNode ''partial'']\<rparr>]\<rparr>
     \<in> set (actions (ListNode (Root twoNamelessTree)))
   \<and> getActionArgs \<lparr>Args = [IdentifierNode ''partial'']\<rparr> = (partialFunc, [], None)
   \<and> pos twoNamelessRaw 14 = (2, 3)
   \<and> processTree twoNamelessTree twoNamelessRaw True True =
       Some (twoNamelessTree, [],
             Some (wrapError ''page.html:1:3: partial: path to partial file is not specified''
                     (posErr 2 ''partial: path to partial file is not specified'')))"
proof -
  have 1: "ActionNode 14 2 \<lparr>IsAssign = False, Decl = [], Cmds = [\<lparr>Args = [IdentifierNode ''partial'']\<rparr>]\<rparr>
     \<in> set (actions (ListNode (Root twoNamelessTree)))"
    by (simp add: twoNamelessTree_def action_def)
  have 2: "getActionArgs \<lparr>Args = [IdentifierNode ''partial'']\<rparr> = (partialFunc, [], None)"
    by (simp add: getActionArgs_def partialFunc_def)
  have 3: "pos twoNamelessRaw 14 = (2, 3)"
    by code_simp
  have 4: "processTree twoNamelessTree twoNamelessRaw True True =
       Some (twoNamelessTree, [],
             Some (wrapError ''page.html:1:3: partial: path to partial file is not specified''
                     (posErr 2 ''partial: path to partial file is not specified'')))"
    by code_simp
  from 1 2 3 4 show ?thesis by (intro conjI)
qed

text \<open>
  C7. Let the root list of the tree be \<open>xs @ b # ys\<close>, where no node of \<open>xs\<close> holds a
  \<open>partial\<close> without a name and \<open>b\<close> holds one, the first of them at offset \<open>q\<close>.
  Then the pass returns the positioned error of offset \<open>q\<close>, the first met in document
  order; the names are those of \<open>xs\<close>, and neither \<open>b\<close> nor \<open>ys\<close> adds one; and the
  tree that the pass leaves holds every node of \<open>xs\<close> rewritten, \<open>b\<close> rewritten
  up to its error, and \<open>ys\<close> as it was: nothing is rolled back. The same holds of the
  call of \<open>processNode\<close> on any list node, and an if, range or with node whose first
  body fails returns the error of that body with no name, its first body rewritten up
  to the error and its else body as it was.
\<close>

theorem first_error_supersedes:
  assumes "Root t = Some (xs @ b # ys)"
      and "\<forall>x\<in>set xs. firstBad partial x = None"
      and "firstBad partial b = Some q"
      and "firstBad partial (ListNode (Some body)) = Some q1"
  shows "processTree t raw render partial =
           Some (t\<lparr>Root := Some (map (rewritten render partial) xs
                                  @ rewritten render partial b # ys)\<rparr>,
                 concat (map names xs),
                 Some (wrapError
                   (Name t @ '':'' @ itoa (fst (pos raw q)) @ '':'' @ itoa (snd (pos raw q))
                      @ '': partial: path to partial file is not specified'')
                   (posErr q ''partial: path to partial file is not specified'')))
         \<and> processNode parent index (ListNode (Some (xs @ b # ys))) None render partial =
             Some (None,
                   ListNode (Some (map (rewritten render partial) xs
                                   @ rewritten render partial b # ys)),
                   concat (map names xs),
                   Some (posErr q ''partial: path to partial file is not specified''))
         \<and> processNode parent index (IfNode p line pp (Some body) els) None render partial =
             Some (None, IfNode p line pp (Some (rewrittenList render partial body)) els, [],
                   Some (posErr q1 ''partial: path to partial file is not specified''))
         \<and> processNode parent index (RangeNode p line pp (Some body) els) None render partial =
             Some (None, RangeNode p line pp (Some (rewrittenList render partial body)) els, [],
                   Some (posErr q1 ''partial: path to partial file is not specified''))
         \<and> processNode parent index (WithNode p line pp (Some body) els) None render partial =
             Some (None, WithNode p line pp (Some (rewrittenList render partial body)) els, [],
                   Some (posErr q1 ''partial: path to partial file is not specified''))"
proof -
  let ?l = "ListNode (Some (xs @ b # ys))"
  have rw: "rewritten render partial ?l =
      ListNode (Some (map (rewritten render partial) xs @ rewritten render partial b # ys))"
    using rewrittenList_upto [OF assms(2,3)] by simp
  have co: "collected partial ?l = concat (map names xs)"
    using collectedList_upto [OF assms(2,3)] by simp
  have er: "errOf None partial ?l =
      Some (posErr q ''partial: path to partial file is not specified'')"
    using firstBad_upto [OF assms(2,3)] by (simp add: errOf_def del: firstBad.simps)
  have lst: "processNode parent index ?l None render partial =
      Some (None,
            ListNode (Some (map (rewritten render partial) xs @ rewritten render partial b # ys)),
            concat (map names xs),
            Some (posErr q ''partial: path to partial file is not specified''))"
    using processNode_refines(1) [of None ?l parent index render partial]
    by (simp add: rw co er del: processNode.simps rewritten.simps collected.simps)
  have top: "processTree t raw render partial =
      Some (t\<lparr>Root := Some (map (rewritten render partial) xs @ rewritten render partial b # ys)\<rparr>,
            concat (map names xs),
            Some (wrapError
              (Name t @ '':'' @ itoa (fst (pos raw q)) @ '':'' @ itoa (snd (pos raw q))
                 @ '': partial: path to partial file is not specified'')
              (posErr q ''partial: path to partial file is not specified'')))"
    using processTree_refines [of t raw render partial] assms(1)
    by (simp add: rw co er processTreeResult_def split: prod.splits
          del: rewritten.simps collected.simps)
  have br: "rewritten render partial (IfNode p line pp (Some body) els) =
        IfNode p line pp (Some (rewrittenList render partial body)) els"
      "rewritten render partial (RangeNode p line pp (Some body) els) =
        RangeNode p line pp (Some (rewrittenList render partial body)) els"
      "rewritten render partial (WithNode p line pp (Some body) els) =
        WithNode p line pp (Some (rewrittenList render partial body)) els"
      "collectedBodies partial (Some body) els = []"
      "errOf None partial (IfNode p line pp (Some body) els) =
        Some (posErr q1 ''partial: path to partial file is not specified'')"
      "errOf None partial (RangeNode p line pp (Some body) els) =
        Some (posErr q1 ''partial: path to partial file is not specified'')"
      "errOf None partial (WithNode p line pp (Some body) els) =
        Some (posErr q1 ''partial: path to partial file is not specified'')"
    using assms(4) by (simp_all add: collectedBodies_def errOf_def)
  have b1: "processNode parent index (IfNode p line pp (Some body) els) None render partial =
      Some (None, IfNode p line pp (Some (rewrittenList render partial body)) els, [],
            Some (posErr q1 ''partial: path to partial file is not specified''))"
    using processNode_refines(1) [of None "IfNode p line pp (Some body) els" parent index render partial]
    by (simp add: br del: processNode.simps rewritten.simps)
  have b2: "processNode parent index (RangeNode p line pp (Some body) els) None render partial =
      Some (None, RangeNode p line pp (Some (rewrittenList render partial body)) els, [],
            Some (posErr q1 ''partial: path to partial file is not specified''))"
    using processNode_refines(1) [of None "RangeNode p line pp (Some body) els" parent index render partial]
    by (simp add: br del: processNode.simps rewritten.simps)
  have b3: "processNode parent index (WithNode p line pp (Some body) els) None render partial =
      Some (None, WithNode p line pp (Some (rewrittenList render partial body)) els, [],
            Some (posErr q1 ''partial: path to partial file is not specified''))"
    using processNode_refines(1) [of None "WithNode p line pp (Some body) els" parent index render partial]
    by (simp add: br del: processNode.simps rewritten.simps)
  from top lst b1 b2 b3 show ?thesis by (intro conjI)
qed

theorem first_error_supersedes_witness:
  "processTree errorTree errorRaw True True =
     Some (errorTreeAfter, [''a.html''],
           Some (wrapError ''page.html:1:49: partial: path to partial file is not specified''
                   (posErr 48 ''partial: path to partial file is not specified'')))
   \<and> processNode (Some []) 0
       (IfNode 5 1 \<lparr>IsAssign = False, Decl = [], Cmds = []\<rparr>
          (Some [action 11 [IdentifierNode ''render''], action 21 [IdentifierNode ''partial''],
                 action 32 [IdentifierNode ''render'']])
          (Some [action 50 [IdentifierNode ''render'']])) None True True =
     Some (None,
           IfNode 5 1 \<lparr>IsAssign = False, Decl = [], Cmds = []\<rparr>
             (Some [invocation 11 ''body'' DotNode, action 21 [IdentifierNode ''partial''],
                    action 32 [IdentifierNode ''render'']])
             (Some [action 50 [IdentifierNode ''render'']]),
           [], Some (posErr 21 ''partial: path to partial file is not specified''))"
proof -
  let ?if = "IfNode 5 1 \<lparr>IsAssign = False, Decl = [], Cmds = [\<lparr>Args = [FieldNode [''X'']]\<rparr>]\<rparr>
               (Some [action 11 [IdentifierNode ''render'']]) None"
  let ?xs = "[?if, action 28 [IdentifierNode ''partial'', StringNode ''a.html'']]"
  let ?b = "action 48 [IdentifierNode ''partial'']"
  let ?ys = "[action 59 [IdentifierNode ''render'', StringNode ''foot'']]"
  let ?body = "[action 11 [IdentifierNode ''render''], action 21 [IdentifierNode ''partial''],
                 action 32 [IdentifierNode ''render'']]"
  have h1: "Root errorTree = Some (?xs @ ?b # ?ys)"
    by (simp add: errorTree_def)
  have h2: "\<forall>x\<in>set ?xs. firstBad True x = None"
    by (simp add: action_def getActionArgs_def partialFunc_def)
  have h3: "firstBad True ?b = Some 48"
    by (simp add: action_def getActionArgs_def partialFunc_def)
  have h4: "firstBad True (ListNode (Some ?body)) = Some 21"
    by (simp add: action_def getActionArgs_def partialFunc_def)
  have rw: "map (rewritten True True) ?xs @ rewritten True True ?b # ?ys =
      [IfNode 5 1 \<lparr>IsAssign = False, Decl = [], Cmds = [\<lparr>Args = [FieldNode [''X'']]\<rparr>]\<rparr>
         (Some [invocation 11 ''body'' DotNode]) None,
       invocation 28 ''a.html'' DotNode, ?b, action 59 [IdentifierNode ''render'', StringNode ''foot'']]"
    by (simp add: action_def invocation_def getActionArgs_def partialFunc_def renderFunc_def)
  have rb: "rewrittenList True True ?body =
      [invocation 11 ''body'' DotNode, action 21 [IdentifierNode ''partial''],
       action 32 [IdentifierNode ''render'']]"
    by (simp add: action_def invocation_def getActionArgs_def partialFunc_def renderFunc_def)
  have nm: "concat (map names ?xs) = [''a.html'']"
    by (simp add: action_def getActionArgs_def)
  have ps: "itoa (fst (pos errorRaw 48)) = ''1''" "itoa (snd (pos errorRaw 48)) = ''49''"
    by code_simp+
  have nt: "Name errorTree = ''page.html''"
    by (simp add: errorTree_def)
  have af: "errorTree\<lparr>Root := Some
      [IfNode 5 1 \<lparr>IsAssign = False, Decl = [], Cmds = [\<lparr>Args = [FieldNode [''X'']]\<rparr>]\<rparr>
         (Some [invocation 11 ''body'' DotNode]) None,
       invocation 28 ''a.html'' DotNode, ?b,
       action 59 [IdentifierNode ''render'', StringNode ''foot'']]\<rparr> = errorTreeAfter"
    by (simp add: errorTree_def errorTreeAfter_def)
  from first_error_supersedes [OF h1 h2 h3 h4, of errorRaw True "Some []" 0 5 1
      "\<lparr>IsAssign = False, Decl = [], Cmds = []\<rparr>" "Some [action 50 [IdentifierNode ''render'']]"]
  show ?thesis
    unfolding rw rb nm ps nt af
    by (simp del: processNode.simps)
qed

end
